theory Spec2Isabelle
  imports Complex_Main
begin

section \<open>Numbers and tensors\<close>

text \<open>
  The sampler of \<^verbatim>\<open>infer.py\<close> computes on torch tensors of floating-point numbers and
  tests them with \<^verbatim>\<open>math.isfinite\<close> and \<^verbatim>\<open>!= math.inf\<close>, so the
  special values belong to the model. A \<open>scalar\<close> is a real number or one of the IEEE 754
  special values; rounding and overflow are not modelled (finite values are computed
  exactly) and the two zeros are identified.
\<close>

datatype scalar = Fin real | PInf | NInf | NaN

fun isfinite :: "scalar \<Rightarrow> bool" where
  "isfinite (Fin x) = True"
| "isfinite PInf = False"
| "isfinite NInf = False"
| "isfinite NaN = False"

fun fneg :: "scalar \<Rightarrow> scalar" where
  "fneg (Fin x) = Fin (- x)"
| "fneg PInf = NInf"
| "fneg NInf = PInf"
| "fneg NaN = NaN"

fun fadd :: "scalar \<Rightarrow> scalar \<Rightarrow> scalar" where
  "fadd NaN b = NaN"
| "fadd a NaN = NaN"
| "fadd (Fin x) (Fin y) = Fin (x + y)"
| "fadd PInf NInf = NaN"
| "fadd NInf PInf = NaN"
| "fadd PInf b = PInf"
| "fadd a PInf = PInf"
| "fadd NInf b = NInf"
| "fadd a NInf = NInf"

definition fsub :: "scalar \<Rightarrow> scalar \<Rightarrow> scalar" where
  "fsub a b = fadd a (fneg b)"

text \<open>The sign of a product with an infinite factor; zero times infinity is NaN.\<close>

definition inf_times :: "real \<Rightarrow> scalar" where
  "inf_times x = (if x = 0 then NaN else if 0 < x then PInf else NInf)"

fun fmul :: "scalar \<Rightarrow> scalar \<Rightarrow> scalar" where
  "fmul NaN b = NaN"
| "fmul a NaN = NaN"
| "fmul (Fin x) (Fin y) = Fin (x * y)"
| "fmul (Fin x) PInf = inf_times x"
| "fmul (Fin x) NInf = inf_times (- x)"
| "fmul PInf (Fin y) = inf_times y"
| "fmul NInf (Fin y) = inf_times (- y)"
| "fmul PInf PInf = PInf"
| "fmul PInf NInf = NInf"
| "fmul NInf PInf = NInf"
| "fmul NInf NInf = PInf"

fun fabs :: "scalar \<Rightarrow> scalar" where
  "fabs (Fin x) = Fin \<bar>x\<bar>"
| "fabs PInf = PInf"
| "fabs NInf = PInf"
| "fabs NaN = NaN"

text \<open>
  \<^verbatim>\<open>torch.sign\<close> computes \<^verbatim>\<open>(0 < x) - (x < 0)\<close>: both comparisons fail on NaN.
\<close>

fun fsign :: "scalar \<Rightarrow> scalar" where
  "fsign (Fin x) = Fin (sgn x)"
| "fsign PInf = Fin 1"
| "fsign NInf = Fin (- 1)"
| "fsign NaN = Fin 0"

text \<open>Comparisons: every comparison with NaN is false.\<close>

fun fle :: "scalar \<Rightarrow> scalar \<Rightarrow> bool" where
  "fle NaN b = False"
| "fle a NaN = False"
| "fle (Fin x) (Fin y) = (x \<le> y)"
| "fle NInf b = True"
| "fle a PInf = True"
| "fle PInf b = False"
| "fle a NInf = False"

fun flt :: "scalar \<Rightarrow> scalar \<Rightarrow> bool" where
  "flt NaN b = False"
| "flt a NaN = False"
| "flt (Fin x) (Fin y) = (x < y)"
| "flt PInf b = False"
| "flt a NInf = False"
| "flt NInf b = True"
| "flt a PInf = True"

fun fexp :: "scalar \<Rightarrow> scalar" where
  "fexp (Fin x) = Fin (exp x)"
| "fexp PInf = PInf"
| "fexp NInf = Fin 0"
| "fexp NaN = NaN"

text \<open>Division of a number by the constant 2 (\<^verbatim>\<open>eps / 2\<close>, \<^verbatim>\<open>dot / 2\<close>).\<close>

fun half :: "scalar \<Rightarrow> scalar" where
  "half (Fin x) = Fin (x / 2)"
| "half PInf = PInf"
| "half NInf = NInf"
| "half NaN = NaN"


text \<open>Python exceptions the sampler can raise.\<close>

datatype error = IndexError | RuntimeError | AssertionError | ZeroDivisionError

definition bind :: "error + 'a \<Rightarrow> ('a \<Rightarrow> error + 'b) \<Rightarrow> error + 'b" where
  "bind m f = (case m of Inl e \<Rightarrow> Inl e | Inr x \<Rightarrow> f x)"

text \<open>
  An elementwise operation on two one-dimensional tensors follows torch's broadcasting rule:
  equal sizes pair up, a tensor of size 1 is stretched, any other pair of sizes raises
  \<^verbatim>\<open>RuntimeError\<close>.
\<close>

definition bcast :: "('a \<Rightarrow> 'b \<Rightarrow> 'c) \<Rightarrow> 'a list \<Rightarrow> 'b list \<Rightarrow> error + 'c list" where
  "bcast f xs ys =
     (if length xs = length ys then Inr (map2 f xs ys)
      else if length xs = 1 then Inr (map (f (hd xs)) ys)
      else if length ys = 1 then Inr (map (\<lambda>x. f x (hd ys)) xs)
      else Inl RuntimeError)"

text \<open>A float times a bool: the bool is promoted to 1.0 or 0.0.\<close>

definition mask_mul :: "scalar \<Rightarrow> bool \<Rightarrow> scalar" where
  "mask_mul x b = fmul x (Fin (if b then 1 else 0))"

definition fsum :: "scalar list \<Rightarrow> scalar" where
  "fsum xs = foldr fadd xs (Fin 0)"

definition dot :: "scalar list \<Rightarrow> scalar list \<Rightarrow> scalar" where
  "dot xs ys = fsum (map2 fmul xs ys)"

text \<open>Python's \<^verbatim>\<open>xs[a:b]\<close> for \<^verbatim>\<open>0 <= a\<close>, \<^verbatim>\<open>0 <= b\<close>.\<close>

definition slice :: "'a list \<Rightarrow> nat \<Rightarrow> nat \<Rightarrow> 'a list" where
  "slice xs a b = drop a (take b xs)"

subsection \<open>The store of momentum tensors\<close>

text \<open>
  \<^verbatim>\<open>infer.py\<close> writes into a tensor in place at three places only: line 116 writes into
  a fresh clone of \<^verbatim>\<open>state.q\<close>, lines 121 and 123 write into \<^verbatim>\<open>state.p\<close>. The
  tensors behind \<^verbatim>\<open>q\<close>, \<^verbatim>\<open>is_cont\<close> and the fields of a result bundle are never
  written, so they are modelled by value. Momentum tensors are written in place while
  \<^verbatim>\<open>np_dhmc\<close> builds both of its \<^verbatim>\<open>State\<close> objects on one tensor \<^verbatim>\<open>p\<close>
  (lines 215 and 216), so they live in a store: a \<open>tensor_ref\<close> names a storage cell and
  the number of leading elements it views (\<^verbatim>\<open>t[:n]\<close> is a view on the storage of
  \<^verbatim>\<open>t\<close>), arithmetic and \<^verbatim>\<open>torch.cat\<close> allocate a new cell.
\<close>

record tensor_ref =
  addr :: nat
  tlen :: nat

text \<open>
  The store is the list of the storage cells allocated so far; a reference to a cell that is
  not allocated reads as the empty tensor.
\<close>

type_synonym store = "scalar list list"

definition read_t :: "store \<Rightarrow> tensor_ref \<Rightarrow> scalar list" where
  "read_t s h = (if addr h < length s then take (tlen h) (s ! addr h) else [])"

definition alloc :: "store \<Rightarrow> scalar list \<Rightarrow> tensor_ref \<times> store"  where
  "alloc s xs = (\<lparr>addr = length s, tlen = length xs\<rparr>, s @ [xs])"

text \<open>\<^verbatim>\<open>t[i] = v\<close> for an index the caller has checked.\<close>

definition write_t :: "store \<Rightarrow> tensor_ref \<Rightarrow> nat \<Rightarrow> scalar \<Rightarrow> store" where
  "write_t s h i v = s[addr h := (s ! addr h)[i := v]]"

text \<open>\<^verbatim>\<open>t[:n]\<close>: a view on the same storage.\<close>

definition view_to :: "tensor_ref \<Rightarrow> nat \<Rightarrow> tensor_ref" where
  "view_to h n = h\<lparr>tlen := min n (tlen h)\<rparr>"

definition empty_store :: store where
  "empty_store = []"

section \<open>The random generator and the oracle\<close>

text \<open>
  All random draws come from torch's one global generator. The state of a deterministic
  generator is fixed by its seed and by the draws made since seeding, so the model takes
  that history as the generator's state (\<open>gen\<close>), and a \<open>seed\<close> gives the value
  of each draw as a function of the history before it.
\<close>

datatype draw = Rand | Normal nat | Laplace nat | Randperm nat

type_synonym gen = "draw list"

record seed =
  rand_at :: "gen \<Rightarrow> real"
  normal_at :: "gen \<Rightarrow> nat \<Rightarrow> real"
  laplace_at :: "gen \<Rightarrow> nat \<Rightarrow> real"
  randperm_at :: "gen \<Rightarrow> nat \<Rightarrow> nat list"

text \<open>\<^verbatim>\<open>torch.rand(())\<close>\<close>

definition torch_rand :: "seed \<Rightarrow> gen \<Rightarrow> scalar \<times> gen" where
  "torch_rand S g = (Fin (rand_at S g), g @ [Rand])"

text \<open>\<^verbatim>\<open>torch.distributions.Normal(0, 1).sample([n])\<close>\<close>

definition normal_sample :: "seed \<Rightarrow> nat \<Rightarrow> gen \<Rightarrow> scalar list \<times> gen" where
  "normal_sample S n g = (map (\<lambda>k. Fin (normal_at S g k)) [0..<n], g @ [Normal n])"

text \<open>\<^verbatim>\<open>torch.distributions.Laplace(0, 1).sample([n])\<close>\<close>

definition laplace_sample :: "seed \<Rightarrow> nat \<Rightarrow> gen \<Rightarrow> scalar list \<times> gen" where
  "laplace_sample S n g = (map (\<lambda>k. Fin (laplace_at S g k)) [0..<n], g @ [Laplace n])"

text \<open>
  \<^verbatim>\<open>torch.randperm(n)\<close>. torch returns a permutation of \<^verbatim>\<open>0..n-1\<close>; the model does
  not rely on it, and indexing with the list checks every index as torch does.
\<close>

definition randperm :: "seed \<Rightarrow> nat \<Rightarrow> gen \<Rightarrow> nat list \<times> gen" where
  "randperm S n g = (randperm_at S g n, g @ [Randperm n])"

text \<open>\<^verbatim>\<open>xs[ks]\<close> for an index tensor \<^verbatim>\<open>ks\<close>.\<close>

definition index_by :: "'a list \<Rightarrow> nat list \<Rightarrow> error + 'a list" where
  "index_by xs ks =
     (if list_all (\<lambda>k. k < length xs) ks then Inr (map (nth xs) ks) else Inl IndexError)"

text \<open>
  Modelled from the spec: the class \<^verbatim>\<open>ProbRun\<close> of module \<^verbatim>\<open>ppl\<close> is imported by
  \<^verbatim>\<open>infer.py\<close> (line 11) and is not among the sources. The spec's oracle contract lists
  the fields of a result bundle: \<^verbatim>\<open>log_weight\<close>, \<^verbatim>\<open>gradU()\<close>, \<^verbatim>\<open>samples\<close>,
  \<^verbatim>\<open>is_cont\<close>, \<^verbatim>\<open>len\<close> (length of \<^verbatim>\<open>samples\<close>) and \<^verbatim>\<open>value\<close>, opaque
  to the sampler.
\<close>

record 'v prob_run =
  log_weight :: scalar
  gradU :: "scalar list"
  samples :: "scalar list"
  is_cont :: "bool list"
  val :: 'v

text \<open>Modelled from the spec: \<^verbatim>\<open>len\<close> is the length of \<^verbatim>\<open>samples\<close>.\<close>

definition len :: "'v prob_run \<Rightarrow> nat" where
  "len r = length (samples r)"

text \<open>
  The oracle \<^verbatim>\<open>run_prog\<close> is a parameter of every function of the sampler. It is
  called with a position vector; it may draw from the shared generator.
\<close>

type_synonym 'v run_prog_fn = "scalar list \<Rightarrow> gen \<Rightarrow> 'v prob_run \<times> gen"

text \<open>
  The variables of \<^verbatim>\<open>np_dhmc\<close> that live across the iterations of its loop (lines 202
  to 208), with the generator.
\<close>

record 'v driver =
  q :: "scalar list"
  is_cont :: "bool list"
  result :: "'v prob_run"
  accept_count :: int
  final_samples :: "'v list"
  rng :: gen

section \<open>Phase-space state (class \<^verbatim>\<open>State\<close>, lines 17 to 44)\<close>

record state =
  q :: "scalar list"
  p :: tensor_ref
  is_cont :: "bool list"

text \<open>
  \<^verbatim>\<open>
  gaussian = self.p * self.is_cont
  laplace = self.p * ~self.is_cont
  return gaussian.dot(gaussian) / 2 + torch.sum(torch.abs(laplace))
  \<close>
\<close>

definition kinetic_energy :: "store \<Rightarrow> state \<Rightarrow> error + scalar" where
  "kinetic_energy s st =
     bind (bcast mask_mul (read_t s (p st)) (is_cont st)) (\<lambda>gaussian.
     bind (bcast mask_mul (read_t s (p st)) (map Not (is_cont st))) (\<lambda>laplace.
     Inr (fadd (half (dot gaussian gaussian)) (fsum (map fabs laplace)))))"

text \<open>
  The words of the spec for the kinetic energy: the sub-vector of the momentum at the
  continuous indices and the one at the discontinuous indices.
\<close>

definition cont_part :: "'a list \<Rightarrow> bool list \<Rightarrow> 'a list" where
  "cont_part xs cs = map fst (filter snd (zip xs cs))"

definition disc_part :: "'a list \<Rightarrow> bool list \<Rightarrow> 'a list" where
  "disc_part xs cs = map fst (filter (\<lambda>xc. \<not> snd xc) (zip xs cs))"

definition spec_kinetic_energy :: "real list \<Rightarrow> bool list \<Rightarrow> real" where
  "spec_kinetic_energy xs cs =
     (\<Sum>x\<leftarrow>cont_part xs cs. x\<^sup>2) / 2 + (\<Sum>x\<leftarrow>disc_part xs cs. \<bar>x\<bar>)"

text \<open>
  The same words over the values of a tensor, infinite entries and NaN included: the sums
  are taken over the two sub-vectors with the operations of the code.
\<close>

definition spec_kinetic_energy_ext :: "scalar list \<Rightarrow> bool list \<Rightarrow> scalar" where
  "spec_kinetic_energy_ext xs cs =
     fadd (half (fsum (map (\<lambda>x. fmul x x) (cont_part xs cs))))
          (fsum (map fabs (disc_part xs cs)))"


section \<open>Coordinate integrator (\<^verbatim>\<open>coord_integrator\<close>, lines 103 to 150)\<close>

text \<open>
  What the functions of the sampler pass along: the current result bundle, the working
  state \<^verbatim>\<open>state\<close>, the reference state \<^verbatim>\<open>state_0\<close>, the store of momentum
  tensors and the generator.
\<close>

type_synonym 'v world = "'v prob_run \<times> state \<times> state \<times> store \<times> gen"

text \<open>
  Lines 129 to 138, the branch \<^verbatim>\<open>N2 > N\<close>:
  \<^verbatim>\<open>
  state.q = result.samples.clone().detach()
  is_cont = result.is_cont.clone().detach()
  gauss = torch.distributions.Normal(0, 1).sample([N2 - N])
  laplace = torch.distributions.Laplace(0, 1).sample([N2 - N])
  p_padding = gauss * is_cont[N:N2] + laplace * ~is_cont[N:N2]
  state_0.p = torch.cat((state_0.p, p_padding))
  state_0.is_cont = torch.cat((state_0.is_cont, is_cont[N:N2]))
  state.p = torch.cat((state.p, p_padding))
  state.is_cont = is_cont
  \<close>
\<close>

definition p_padding ::
  "seed \<Rightarrow> nat \<Rightarrow> nat \<Rightarrow> bool list \<Rightarrow> gen \<Rightarrow> error + (scalar list \<times> gen)" where
  "p_padding S N N2 cs g =
     (let (gauss, g1) = normal_sample S (N2 - N) g;
          (laplace, g2) = laplace_sample S (N2 - N) g1
      in bind (bcast mask_mul gauss (slice cs N N2)) (\<lambda>a.
         bind (bcast mask_mul laplace (map Not (slice cs N N2))) (\<lambda>b.
         bind (bcast fadd a b) (\<lambda>pad. Inr (pad, g2)))))"

definition extend_dim ::
  "seed \<Rightarrow> nat \<Rightarrow> nat \<Rightarrow> 'v prob_run \<Rightarrow> state \<Rightarrow> state \<Rightarrow> store \<Rightarrow> gen
     \<Rightarrow> error + (state \<times> state \<times> store \<times> gen)" where
  "extend_dim S N N2 res st st0 s g =
     (let cs = prob_run.is_cont res
      in bind (p_padding S N N2 cs g) (\<lambda>(pad, g2).
         let (p0, s1) = alloc s (read_t s (p st0) @ pad);
             st0' = st0\<lparr>p := p0, is_cont := is_cont st0 @ slice cs N N2\<rparr>;
             (p1, s2) = alloc s1 (read_t s1 (p st) @ pad)
         in Inr (st\<lparr>q := samples res, p := p1, is_cont := cs\<rparr>, st0', s2, g2)))"

text \<open>
  Lines 141 to 145, the branch \<^verbatim>\<open>N2 <= N\<close>:
  \<^verbatim>\<open>
  state.q = result.samples[:N2].clone().detach()
  state.p = state.p[:N2]
  state.is_cont = result.is_cont[:N2]
  state_0.p = state_0.p[:N2]
  state_0.is_cont = state_0.is_cont[:N2]
  \<close>
\<close>

definition truncate_dim :: "nat \<Rightarrow> 'v prob_run \<Rightarrow> state \<Rightarrow> state \<Rightarrow> state \<times> state" where
  "truncate_dim N2 res st st0 =
     (st\<lparr>q := take N2 (samples res), p := view_to (p st) N2,
         is_cont := take N2 (prob_run.is_cont res)\<rparr>,
      st0\<lparr>p := view_to (p st0) N2, is_cont := take N2 (is_cont st0)\<rparr>)"

text \<open>The four assertions of lines 146 to 149.\<close>

definition check_lengths :: "store \<Rightarrow> state \<Rightarrow> state \<Rightarrow> bool" where
  "check_lengths s st st0 =
     (length (read_t s (p st)) = length (read_t s (p st0)) \<and>
      length (read_t s (p st)) = length (q st) \<and>
      length (is_cont st) = length (read_t s (p st)) \<and>
      length (is_cont st0) = length (read_t s (p st0)))"

text \<open>
  The index \<open>i\<close> is the natural number \<^verbatim>\<open>int(j.item())\<close> that \<^verbatim>\<open>integrator_step\<close>
  passes. Line 116 reads \<^verbatim>\<open>q[i]\<close> and \<^verbatim>\<open>state.p[i]\<close>, which raise
  \<^verbatim>\<open>IndexError\<close> out of range. \<^verbatim>\<open>state\<close> and \<^verbatim>\<open>state_0\<close> are two objects;
  their momentum fields may name the same tensor.

  Lines 115 to 117, the oracle's answer at the candidate position:
  \<^verbatim>\<open>
  q = state.q.clone().detach()
  q[i] += eps * torch.sign(state.p[i])
  new_result = run_prog(q)
  \<close>
\<close>

definition candidate ::
  "'v run_prog_fn \<Rightarrow> nat \<Rightarrow> scalar \<Rightarrow> state \<Rightarrow> store \<Rightarrow> gen \<Rightarrow> 'v prob_run \<times> gen" where
  "candidate run_prog i eps st s g =
     run_prog ((q st)[i := fadd (q st ! i) (fmul eps (fsign (read_t s (p st) ! i)))]) g"

text \<open>
  Lines 114, 118 and 119:
  \<^verbatim>\<open>
  U = -result.log_weight
  new_U = -new_result.log_weight.item()
  delta_U = new_U - U
  \<close>
\<close>

definition delta_U ::
  "'v run_prog_fn \<Rightarrow> nat \<Rightarrow> scalar \<Rightarrow> state \<Rightarrow> 'v prob_run \<Rightarrow> store \<Rightarrow> gen \<Rightarrow> scalar" where
  "delta_U run_prog i eps st res s g =
     (let U = fneg (log_weight res);
          new_U = fneg (log_weight (fst (candidate run_prog i eps st s g)))
      in fsub new_U U)"

text \<open>
  The test of line 120:
  \<^verbatim>\<open>if not math.isfinite(new_U) or torch.abs(state.p[i]) <= delta_U\<close>
\<close>

definition reflects ::
  "'v run_prog_fn \<Rightarrow> nat \<Rightarrow> scalar \<Rightarrow> state \<Rightarrow> 'v prob_run \<Rightarrow> store \<Rightarrow> gen \<Rightarrow> bool" where
  "reflects run_prog i eps st res s g =
     (\<not> isfinite (fneg (log_weight (fst (candidate run_prog i eps st s g)))) \<or>
      fle (fabs (read_t s (p st) ! i)) (delta_U run_prog i eps st res s g))"

text \<open>Line 123: \<^verbatim>\<open>state.p[i] -= torch.sign(state.p[i]) * delta_U\<close>\<close>

definition refracted :: "scalar \<Rightarrow> scalar \<Rightarrow> scalar" where
  "refracted p_i dU = fsub p_i (fmul (fsign p_i) dU)"

text \<open>
  The body, lines 120 to 150: \<^verbatim>\<open>state.p[i] = -state.p[i]\<close> and
  \<^verbatim>\<open>state.p[i] -= torch.sign(state.p[i]) * delta_U\<close> write into the tensor of
  \<^verbatim>\<open>state.p\<close>.
\<close>

definition coord_integrator ::
  "seed \<Rightarrow> 'v run_prog_fn \<Rightarrow> nat \<Rightarrow> scalar \<Rightarrow> state \<Rightarrow> state \<Rightarrow> 'v prob_run \<Rightarrow> store \<Rightarrow> gen
     \<Rightarrow> error + 'v world" where
  "coord_integrator S run_prog i eps st st0 res s g =
     (if \<not> i < length (q st) \<or> \<not> i < length (read_t s (p st)) then Inl IndexError
      else
        let (new_result, g1) = candidate run_prog i eps st s g;
            p_i = read_t s (p st) ! i
        in if reflects run_prog i eps st res s g
           then Inr (res, st, st0, write_t s (p st) i (fneg p_i), g1)
           else
             let s1 = write_t s (p st) i
                        (refracted p_i (delta_U run_prog i eps st res s g));
                 N2 = len new_result;
                 N = len res
             in bind (if N < N2 then extend_dim S N N2 new_result st st0 s1 g1
                      else (case truncate_dim N2 new_result st st0 of
                              (st', st0') \<Rightarrow> Inr (st', st0', s1, g1)))
                  (\<lambda>(st', st0', s2, g2).
                     if check_lengths s2 st' st0' then Inr (new_result, st', st0', s2, g2)
                     else Inl AssertionError))"

section \<open>Leapfrog step (\<^verbatim>\<open>integrator_step\<close>, lines 153 to 177)\<close>

text \<open>
  The loop of lines 169 to 172 over the permuted discontinuous indices:
  \<^verbatim>\<open>
  for j in disc_indices_permuted:
      if j >= len(state.q):
          continue
      result = coord_integrator(run_prog, int(j.item()), eps, state, state_0, result)
  \<close>
\<close>

fun sweep :: "seed \<Rightarrow> 'v run_prog_fn \<Rightarrow> scalar \<Rightarrow> nat list \<Rightarrow> 'v world \<Rightarrow> error + 'v world" where
  "sweep S run_prog eps [] w = Inr w"
| "sweep S run_prog eps (j # js) (res, st, st0, s, g) =
     (if length (q st) \<le> j then sweep S run_prog eps js (res, st, st0, s, g)
      else bind (coord_integrator S run_prog j eps st st0 res s g) (sweep S run_prog eps js))"

text \<open>
  Lines 160 to 163, the first half of the leapfrog step for the continuous coordinates.
  Each update builds a new tensor and rebinds the field:
  \<^verbatim>\<open>
  result = run_prog(state.q)
  state.p = state.p - eps / 2 * result.gradU() * state.is_cont
  state.q = state.q + eps / 2 * state.p * state.is_cont
  \<close>
\<close>

definition first_half ::
  "'v run_prog_fn \<Rightarrow> scalar \<Rightarrow> state \<Rightarrow> store \<Rightarrow> gen \<Rightarrow> error + (state \<times> store \<times> gen)" where
  "first_half run_prog eps st s g =
     (let (res, g1) = run_prog (q st) g in
      bind (bcast mask_mul (map (fmul (half eps)) (gradU res)) (is_cont st)) (\<lambda>t1.
      bind (bcast fsub (read_t s (p st)) t1) (\<lambda>p1.
      let (h1, s1) = alloc s p1;
          st1 = st\<lparr>p := h1\<rparr> in
      bind (bcast mask_mul (map (fmul (half eps)) p1) (is_cont st1)) (\<lambda>t2.
      bind (bcast fadd (q st1) t2) (\<lambda>q2.
      Inr (st1\<lparr>q := q2\<rparr>, s1, g1))))))"

text \<open>
  Lines 166 to 168; \<^verbatim>\<open>torch.nonzero\<close> lists the discontinuous indices in increasing
  order:
  \<^verbatim>\<open>
  disc_indices = torch.flatten(torch.nonzero(~state.is_cont, as_tuple=False))
  perm = torch.randperm(len(disc_indices))
  disc_indices_permuted = disc_indices[perm]
  \<close>
\<close>

definition disc_indices_permuted :: "seed \<Rightarrow> state \<Rightarrow> gen \<Rightarrow> error + (nat list \<times> gen)" where
  "disc_indices_permuted S st g =
     (let disc_indices = filter (\<lambda>k. \<not> is_cont st ! k) [0..<length (is_cont st)];
          (perm, g1) = randperm S (length disc_indices) g
      in bind (index_by disc_indices perm) (\<lambda>js. Inr (js, g1)))"

text \<open>
  Lines 174 to 176, the second half of the leapfrog step for the continuous coordinates:
  \<^verbatim>\<open>
  state.q = state.q + eps / 2 * state.p * state.is_cont
  result = run_prog(state.q)
  state.p = state.p - eps / 2 * result.gradU() * state.is_cont
  \<close>
\<close>

definition second_half ::
  "'v run_prog_fn \<Rightarrow> scalar \<Rightarrow> state \<Rightarrow> store \<Rightarrow> gen
     \<Rightarrow> error + ('v prob_run \<times> state \<times> store \<times> gen)" where
  "second_half run_prog eps st s g =
     bind (bcast mask_mul (map (fmul (half eps)) (read_t s (p st))) (is_cont st)) (\<lambda>t3.
     bind (bcast fadd (q st) t3) (\<lambda>q4.
     let st4 = st\<lparr>q := q4\<rparr>;
         (res, g1) = run_prog (q st4) g in
     bind (bcast mask_mul (map (fmul (half eps)) (gradU res)) (is_cont st4)) (\<lambda>t4.
     bind (bcast fsub (read_t s (p st4)) t4) (\<lambda>p5.
     let (h5, s5) = alloc s p5 in
     Inr (res, st4\<lparr>p := h5\<rparr>, s5, g1)))))"

text \<open>The whole step; line 164 runs the oracle again before the sweep.\<close>

definition integrator_step ::
  "seed \<Rightarrow> 'v run_prog_fn \<Rightarrow> scalar \<Rightarrow> state \<Rightarrow> state \<Rightarrow> store \<Rightarrow> gen \<Rightarrow> error + 'v world" where
  "integrator_step S run_prog eps st st0 s g =
     bind (first_half run_prog eps st s g) (\<lambda>(st2, s1, g1).
     let (res2, g2) = run_prog (q st2) g1 in
     bind (disc_indices_permuted S st2 g2) (\<lambda>(js, g3).
     bind (sweep S run_prog eps js (res2, st2, st0, s1, g3)) (\<lambda>(res3, st3, st0', s3, g4).
     bind (second_half run_prog eps st3 s3 g4) (\<lambda>(res4, st4, s5, g5).
     Inr (res4, st4, st0', s5, g5)))))"

section \<open>The driver (\<^verbatim>\<open>np_dhmc\<close>, lines 181 to 238)\<close>

text \<open>
  Lines 210 to 214, the draws that open an iteration:
  \<^verbatim>\<open>
  N = len(q)
  dt = ((torch.rand(()) + 0.5) * eps).item()
  gaussian = torch.distributions.Normal(0, 1).sample([N]) * is_cont
  laplace = torch.distributions.Laplace(0, 1).sample([N]) * ~is_cont
  p = gaussian + laplace
  \<close>
\<close>

definition proposal_draws ::
  "seed \<Rightarrow> scalar \<Rightarrow> scalar list \<Rightarrow> bool list \<Rightarrow> gen \<Rightarrow> error + (scalar \<times> scalar list \<times> gen)" where
  "proposal_draws S eps qv cs g =
     (let N = length qv;
          (u, g1) = torch_rand S g;
          dt = fmul (fadd u (Fin (1 / 2))) eps;
          (ns, g2) = normal_sample S N g1 in
      bind (bcast mask_mul ns cs) (\<lambda>gaussian.
      let (ls, g3) = laplace_sample S N g2 in
      bind (bcast mask_mul ls (map Not cs)) (\<lambda>laplace.
      bind (bcast fadd gaussian laplace) (\<lambda>pv.
      Inr (dt, pv, g3)))))"

text \<open>
  Lines 218 to 221:
  \<^verbatim>\<open>
  for _ in range(leapfrog_steps):
      if not math.isfinite(result.log_weight.item()):
          break
      result = integrator_step(run_prog, dt, state, state_0)
  \<close>
\<close>

fun leapfrog_loop :: "seed \<Rightarrow> 'v run_prog_fn \<Rightarrow> scalar \<Rightarrow> nat \<Rightarrow> 'v world \<Rightarrow> error + 'v world" where
  "leapfrog_loop S run_prog dt 0 w = Inr w"
| "leapfrog_loop S run_prog dt (Suc n) (res, st, st0, s, g) =
     (if \<not> isfinite (log_weight res) then Inr (res, st, st0, s, g)
      else bind (integrator_step S run_prog dt st st0 s g) (leapfrog_loop S run_prog dt n))"

text \<open>
  Lines 223, 225 and 226:
  \<^verbatim>\<open>
  U_0 = -prev_res.log_weight
  U = -result.log_weight
  accept_prob = torch.exp(U_0 + K_0 - U - K)
  \<close>
\<close>

definition accept_prob :: "'v prob_run \<Rightarrow> 'v prob_run \<Rightarrow> scalar \<Rightarrow> scalar \<Rightarrow> scalar" where
  "accept_prob prev_res res K_0 K =
     (let U_0 = fneg (log_weight prev_res);
          U = fneg (log_weight res)
      in fexp (fsub (fsub (fadd U_0 K_0) U) K))"

text \<open>
  Lines 228 to 231, on accept:
  \<^verbatim>\<open>
  q = state.q
  is_cont = state.is_cont
  accept_count += 1
  final_samples.append(result.value)
  \<close>
\<close>

definition commit :: "'v driver \<Rightarrow> 'v prob_run \<Rightarrow> state \<Rightarrow> gen \<Rightarrow> 'v driver" where
  "commit d res st g =
     d\<lparr>driver.q := q st, driver.is_cont := is_cont st, result := res,
       accept_count := accept_count d + 1,
       final_samples := final_samples d @ [val res], rng := g\<rparr>"

text \<open>
  Lines 233 and 234, on reject:
  \<^verbatim>\<open>
  result = prev_res
  final_samples.append(prev_res.value)
  \<close>
\<close>

definition rollback :: "'v driver \<Rightarrow> 'v prob_run \<Rightarrow> gen \<Rightarrow> 'v driver" where
  "rollback d prev_res g =
     d\<lparr>result := prev_res, final_samples := final_samples d @ [val prev_res], rng := g\<rparr>"

text \<open>
  The value of the test of line 227 when the uniform number is drawn in the generator
  state \<open>g\<close>: \<^verbatim>\<open>U.item() != math.inf and torch.rand(()) < accept_prob\<close>
\<close>

definition accepts ::
  "seed \<Rightarrow> 'v prob_run \<Rightarrow> 'v prob_run \<Rightarrow> scalar \<Rightarrow> scalar \<Rightarrow> gen \<Rightarrow> bool" where
  "accepts S prev_res res K_0 K g =
     (fneg (log_weight res) \<noteq> PInf \<and>
      flt (Fin (rand_at S g)) (accept_prob prev_res res K_0 K))"

text \<open>
  Lines 222 to 234, the Metropolis test:
  \<^verbatim>\<open>
  K_0 = state_0.kinetic_energy()
  K = state.kinetic_energy()
  if U.item() != math.inf and torch.rand(()) < accept_prob:
  \<close>
  \<^verbatim>\<open>and\<close> evaluates its right operand, and so draws the uniform number, only when
  \<^verbatim>\<open>U.item() != math.inf\<close>.
\<close>

definition metropolis ::
  "seed \<Rightarrow> 'v driver \<Rightarrow> 'v prob_run \<Rightarrow> 'v world \<Rightarrow> error + 'v driver" where
  "metropolis S d prev_res w =
     (case w of (res, st, st0, s, g) \<Rightarrow>
      bind (kinetic_energy s st0) (\<lambda>K_0.
      bind (kinetic_energy s st) (\<lambda>K.
      if fneg (log_weight res) \<noteq> PInf then
        (let (u, g') = torch_rand S g in
         if flt u (accept_prob prev_res res K_0 K) then Inr (commit d res st g')
         else Inr (rollback d prev_res g'))
      else Inr (rollback d prev_res g))))"

text \<open>
  Lines 210 to 221, the trajectory of one iteration. Both states are built on the tensor
  \<^verbatim>\<open>p\<close> (lines 215 and 216); the store of momentum tensors starts empty, as no
  momentum tensor outlives an iteration.
\<close>

definition trajectory ::
  "seed \<Rightarrow> 'v run_prog_fn \<Rightarrow> int \<Rightarrow> scalar \<Rightarrow> 'v driver \<Rightarrow> error + 'v world" where
  "trajectory S run_prog leapfrog_steps eps d =
     bind (proposal_draws S eps (driver.q d) (driver.is_cont d) (rng d)) (\<lambda>(dt, pv, g).
     let (h, s) = alloc empty_store pv;
         state_0 = \<lparr>q = driver.q d, p = h, is_cont = driver.is_cont d\<rparr>;
         state = \<lparr>q = driver.q d, p = h, is_cont = driver.is_cont d\<rparr>
     in leapfrog_loop S run_prog dt (nat leapfrog_steps) (result d, state, state_0, s, g))"

text \<open>One iteration of the loop of line 209; \<^verbatim>\<open>prev_res = result\<close> (line 217).\<close>

definition np_dhmc_iter ::
  "seed \<Rightarrow> 'v run_prog_fn \<Rightarrow> int \<Rightarrow> scalar \<Rightarrow> 'v driver \<Rightarrow> error + 'v driver" where
  "np_dhmc_iter S run_prog leapfrog_steps eps d =
     (let prev_res = result d
      in bind (trajectory S run_prog leapfrog_steps eps d) (metropolis S d prev_res))"

fun np_dhmc_loop ::
  "seed \<Rightarrow> 'v run_prog_fn \<Rightarrow> int \<Rightarrow> scalar \<Rightarrow> nat \<Rightarrow> 'v driver \<Rightarrow> error + 'v driver" where
  "np_dhmc_loop S run_prog leapfrog_steps eps 0 d = Inr d"
| "np_dhmc_loop S run_prog leapfrog_steps eps (Suc n) d =
     bind (np_dhmc_iter S run_prog leapfrog_steps eps d)
       (np_dhmc_loop S run_prog leapfrog_steps eps n)"

text \<open>Python's \<^verbatim>\<open>xs[b:]\<close> on a list, for any integer \<^verbatim>\<open>b\<close>.\<close>

definition drop_from :: "'a list \<Rightarrow> int \<Rightarrow> 'a list" where
  "drop_from xs b = (if b < 0 then drop (nat (int (length xs) + b)) xs else drop (nat b) xs)"

text \<open>
  Lines 200 to 208, the variables of the driver before the first iteration; \<open>g0\<close> is the state
  of the generator when \<^verbatim>\<open>np_dhmc\<close> is called.
\<close>

definition init_driver :: "'v run_prog_fn \<Rightarrow> gen \<Rightarrow> 'v driver" where
  "init_driver run_prog g0 =
     (let (res, g1) = run_prog [] g0
      in \<lparr>driver.q = samples res, driver.is_cont = prob_run.is_cont res, result = res,
          accept_count = 0, final_samples = [], rng = g1\<rparr>)"

text \<open>
  The whole driver. \<^verbatim>\<open>range(count)\<close> is empty for a negative \<^verbatim>\<open>count\<close>; line 237
  divides by the number of recorded samples and raises \<^verbatim>\<open>ZeroDivisionError\<close> when
  there is none.
\<close>

definition np_dhmc ::
  "seed \<Rightarrow> 'v run_prog_fn \<Rightarrow> int \<Rightarrow> int \<Rightarrow> scalar \<Rightarrow> int option \<Rightarrow> gen \<Rightarrow> error + 'v list" where
  "np_dhmc S run_prog count leapfrog_steps eps burnin_arg g0 =
     (let burnin = (case burnin_arg of None \<Rightarrow> count div 10 | Some b \<Rightarrow> b);
          total = count + burnin in
      bind (np_dhmc_loop S run_prog leapfrog_steps eps (nat total) (init_driver run_prog g0))
        (\<lambda>d.
      if length (final_samples d) = 0 then Inl ZeroDivisionError
      else Inr (drop_from (final_samples d) burnin)))"

text \<open>
  The working and the reference momentum are two allocated tensors on different storage.
\<close>

definition separate :: "store \<Rightarrow> state \<Rightarrow> state \<Rightarrow> bool" where
  "separate s st st0 =
     (addr (p st0) \<noteq> addr (p st) \<and> addr (p st) < length s \<and> addr (p st0) < length s)"



section \<open>The length invariant of the spec\<close>

text \<open>
  The words of the spec: \<^verbatim>\<open>len(working.q) == len(working.p) == len(working.is_cont)\<close>
  and \<^verbatim>\<open>len(reference.p) == len(reference.is_cont) == len(working.p)\<close>.
\<close>

definition length_invariant :: "store \<Rightarrow> state \<Rightarrow> state \<Rightarrow> bool" where
  "length_invariant s st st0 =
     (length (q st) = length (read_t s (p st)) \<and>
      length (read_t s (p st)) = length (is_cont st) \<and>
      length (read_t s (p st0)) = length (is_cont st0) \<and>
      length (is_cont st0) = length (read_t s (p st)))"

section \<open>Concrete inputs\<close>

text \<open>A seed whose uniform draws are 1/2, normal draws 1 and Laplace draws 2.\<close>

definition seed0 :: seed where
  "seed0 = \<lparr>rand_at = (\<lambda>_. 1 / 2), normal_at = (\<lambda>_ _. 1), laplace_at = (\<lambda>_ _. 2),
            randperm_at = (\<lambda>_ n. [0..<n])\<rparr>"

text \<open>A state of two coordinates, the first continuous, with momentum \<open>(3, -2)\<close>.\<close>

definition st_ke :: state where
  "st_ke = \<lparr>q = [Fin 0, Fin 0], p = \<lparr>addr = 0, tlen = 2\<rparr>, is_cont = [True, False]\<rparr>"

definition store_ke :: store where
  "store_ke = [[Fin 3, Fin (- 2)]]"

text \<open>
  An oracle of constant log-weight \<open>c\<close> that returns the query as its samples, every
  coordinate discontinuous.
\<close>

definition const_prog :: "scalar \<Rightarrow> unit run_prog_fn" where
  "const_prog c qv g =
     (\<lparr>log_weight = c, gradU = map (\<lambda>_. Fin 0) qv, samples = qv,
       is_cont = map (\<lambda>_. False) qv, val = ()\<rparr>, g)"

text \<open>An oracle that discovers one more coordinate, valued 5, and marks the old ones continuous.\<close>

definition grow_prog :: "unit run_prog_fn" where
  "grow_prog qv g =
     (\<lparr>log_weight = Fin 0, gradU = map (\<lambda>_. Fin 0) (qv @ [Fin 5]), samples = qv @ [Fin 5],
       is_cont = map (\<lambda>_. True) qv @ [False], val = ()\<rparr>, g)"

text \<open>An oracle that keeps the first coordinate only.\<close>

definition shrink_prog :: "unit run_prog_fn" where
  "shrink_prog qv g =
     (\<lparr>log_weight = Fin 0, gradU = map (\<lambda>_. Fin 0) (take 1 qv), samples = take 1 qv,
       is_cont = map (\<lambda>_. False) (take 1 qv), val = ()\<rparr>, g)"

text \<open>A result bundle of one discontinuous coordinate at 0 with log-weight 0.\<close>

definition res1 :: "unit prob_run" where
  "res1 = \<lparr>log_weight = Fin 0, gradU = [Fin 0], samples = [Fin 0], is_cont = [False], val = ()\<rparr>"

definition res2 :: "unit prob_run" where
  "res2 = \<lparr>log_weight = Fin 0, gradU = [Fin 0, Fin 0], samples = [Fin 0, Fin 0],
           is_cont = [False, False], val = ()\<rparr>"

text \<open>Working and reference states of one coordinate, on the cells 0 and 1 of the store.\<close>

definition work1 :: state where
  "work1 = \<lparr>q = [Fin 0], p = \<lparr>addr = 0, tlen = 1\<rparr>, is_cont = [False]\<rparr>"

definition ref1 :: state where
  "ref1 = \<lparr>q = [Fin 0], p = \<lparr>addr = 1, tlen = 1\<rparr>, is_cont = [False]\<rparr>"

definition work2 :: state where
  "work2 = \<lparr>q = [Fin 0, Fin 0], p = \<lparr>addr = 0, tlen = 2\<rparr>, is_cont = [False, False]\<rparr>"

definition ref2 :: state where
  "ref2 = \<lparr>q = [Fin 0, Fin 0], p = \<lparr>addr = 1, tlen = 2\<rparr>, is_cont = [False, False]\<rparr>"


text \<open>
  An oracle of one continuous coordinate (0 for the empty query) with log-weight 0 at 0 and
  \<open>w\<close> elsewhere; the gradient is 0 and the value is the coordinate.
\<close>

definition spike_prog :: "scalar \<Rightarrow> scalar run_prog_fn" where
  "spike_prog w qv g =
     (let x = (case qv of [] \<Rightarrow> Fin 0 | y # _ \<Rightarrow> y)
      in (\<lparr>log_weight = (if x = Fin 0 then Fin 0 else w), gradU = [Fin 0], samples = [x],
           is_cont = [True], val = x\<rparr>, g))"

text \<open>A density with a pole away from 0, and one that vanishes away from 0.\<close>

definition pole_prog :: "scalar run_prog_fn" where
  "pole_prog = spike_prog PInf"

definition wall_prog :: "scalar run_prog_fn" where
  "wall_prog = spike_prog NInf"

text \<open>The driver's variables before the first iteration with these oracles.\<close>

definition d_start :: "scalar driver" where
  "d_start = \<lparr>driver.q = [Fin 0], driver.is_cont = [True],
              result = \<lparr>log_weight = Fin 0, gradU = [Fin 0], samples = [Fin 0],
                         is_cont = [True], val = Fin 0\<rparr>,
              accept_count = 0, final_samples = [], rng = []\<rparr>"

text \<open>The result bundle of both oracles at the position 1.\<close>

definition res_at_1 :: "scalar \<Rightarrow> scalar prob_run" where
  "res_at_1 w = \<lparr>log_weight = w, gradU = [Fin 0], samples = [Fin 1], is_cont = [True],
                 val = Fin 1\<rparr>"

text \<open>The driver's variables after one, two and three iterations with \<open>pole_prog\<close>.\<close>

definition d_pole1 :: "scalar driver" where
  "d_pole1 = \<lparr>driver.q = [Fin 1], driver.is_cont = [True], result = res_at_1 PInf,
              accept_count = 1, final_samples = [Fin 1],
              rng = [Rand, Normal 1, Laplace 1, Randperm 0, Rand]\<rparr>"

definition d_pole2 :: "scalar driver" where
  "d_pole2 = d_pole1\<lparr>final_samples := [Fin 1, Fin 1],
                     rng := rng d_pole1 @ [Rand, Normal 1, Laplace 1, Rand]\<rparr>"

definition d_pole3 :: "scalar driver" where
  "d_pole3 = d_pole2\<lparr>final_samples := [Fin 1, Fin 1, Fin 1],
                     rng := rng d_pole2 @ [Rand, Normal 1, Laplace 1, Rand]\<rparr>"

text \<open>The working and the reference state after one leapfrog step with either oracle.\<close>

definition work_at_1 :: state where
  "work_at_1 = \<lparr>q = [Fin 1], p = \<lparr>addr = 2, tlen = 1\<rparr>, is_cont = [True]\<rparr>"

definition ref_at_0 :: state where
  "ref_at_0 = \<lparr>q = [Fin 0], p = \<lparr>addr = 0, tlen = 1\<rparr>, is_cont = [True]\<rparr>"

text \<open>The driver's variables after one iteration with \<open>wall_prog\<close>.\<close>

definition d_wall1 :: "scalar driver" where
  "d_wall1 = d_start\<lparr>final_samples := [Fin 0], rng := [Rand, Normal 1, Laplace 1, Randperm 0]\<rparr>"

text \<open>
  An oracle of two coordinates, the first continuous and the second discontinuous, whose
  log-weight is \<open>w\<close> where the first coordinate has left 0 while the second is still at
  0, and 0 elsewhere; the gradient is 0 and the value is the second coordinate.
\<close>

definition gap_prog :: "scalar \<Rightarrow> scalar run_prog_fn" where
  "gap_prog w qv g =
     (let c = (case qv of [] \<Rightarrow> Fin 0 | y # _ \<Rightarrow> y);
          d = (case qv of _ # z # _ \<Rightarrow> z | _ \<Rightarrow> Fin 0)
      in (\<lparr>log_weight = (if c \<noteq> Fin 0 \<and> d = Fin 0 then w else Fin 0),
           gradU = [Fin 0, Fin 0], samples = [c, d], is_cont = [True, False], val = d\<rparr>, g))"

text \<open>A density that vanishes in that region, and one that is not a number there.\<close>

definition hole_prog :: "scalar run_prog_fn" where
  "hole_prog = gap_prog NInf"

definition nan_prog :: "scalar run_prog_fn" where
  "nan_prog = gap_prog NaN"

text \<open>The driver's variables before the first iteration with these oracles.\<close>

definition d_hole :: "scalar driver" where
  "d_hole = \<lparr>driver.q = [Fin 0, Fin 0], driver.is_cont = [True, False],
             result = \<lparr>log_weight = Fin 0, gradU = [Fin 0, Fin 0], samples = [Fin 0, Fin 0],
                        is_cont = [True, False], val = Fin 0\<rparr>,
             accept_count = 0, final_samples = [], rng = []\<rparr>"

text \<open>
  The working state, the reference state and the store after one leapfrog step with
  \<open>hole_prog\<close>.
\<close>

definition work_hole :: state where
  "work_hole = \<lparr>q = [Fin 1, NaN], p = \<lparr>addr = 2, tlen = 2\<rparr>, is_cont = [True, False]\<rparr>"

definition ref_hole :: state where
  "ref_hole = \<lparr>q = [Fin 0, Fin 0], p = \<lparr>addr = 0, tlen = 2\<rparr>, is_cont = [True, False]\<rparr>"

definition store_hole :: store where
  "store_hole = [[Fin 1, Fin 2], [Fin 1, PInf], [Fin 1, PInf]]"

text \<open>
  The working state and the store after the first half of the first leapfrog step with
  either oracle, when the coordinate integrator is called on the second coordinate.
\<close>

definition work_gap :: state where
  "work_gap = \<lparr>q = [Fin (1 / 2), Fin 0], p = \<lparr>addr = 1, tlen = 2\<rparr>, is_cont = [True, False]\<rparr>"

definition store_gap :: store where
  "store_gap = [[Fin 1, Fin 2], [Fin 1, Fin 2]]"


section \<open>Kinetic energy\<close>

lemma bind_Inr: "bind m f = Inr y \<longleftrightarrow> (\<exists>x. m = Inr x \<and> f x = Inr y)"
  by (cases m) (simp_all add: bind_def)

lemma bcast_same: "length xs = length ys \<Longrightarrow> bcast f xs ys = Inr (map2 f xs ys)"
  by (simp add: bcast_def)

lemma dot_masked:
  "length xs = length cs \<Longrightarrow>
   dot (map2 mask_mul (map Fin xs) cs) (map2 mask_mul (map Fin xs) cs) =
     Fin (\<Sum>x\<leftarrow>cont_part xs cs. x\<^sup>2)"
  by (induction xs cs rule: list_induct2)
     (auto simp: dot_def fsum_def mask_mul_def cont_part_def power2_eq_square)

lemma fsum_abs_masked:
  "length xs = length cs \<Longrightarrow>
   fsum (map fabs (map2 mask_mul (map Fin xs) (map Not cs))) = Fin (\<Sum>x\<leftarrow>disc_part xs cs. \<bar>x\<bar>)"
  by (induction xs cs rule: list_induct2) (auto simp: fsum_def mask_mul_def disc_part_def)

text \<open>
  For a state whose momentum entries are real numbers \<open>xs\<close> and whose continuity mask
  has the length of the momentum, \<open>kinetic_energy\<close> returns, in exact arithmetic, the sum
  of the squares of the momentum entries at the continuous indices, divided by two, plus
  the sum of the absolute values of the momentum entries at the discontinuous indices.
\<close>

lemma kinetic_energy_finite:
  assumes rd: "read_t s (p st) = map Fin xs"
    and len: "length xs = length (is_cont st)"
  shows "kinetic_energy s st = Inr (Fin (spec_kinetic_energy xs (is_cont st)))"
proof -
  let ?cs = "is_cont st"
  let ?g = "map2 mask_mul (map Fin xs) ?cs"
  let ?l = "map2 mask_mul (map Fin xs) (map Not ?cs)"
  have g: "bcast mask_mul (map Fin xs) ?cs = Inr ?g"
    using len by (simp add: bcast_same)
  have l: "bcast mask_mul (map Fin xs) (map Not ?cs) = Inr ?l"
    using len by (simp add: bcast_same)
  have "kinetic_energy s st = Inr (fadd (half (dot ?g ?g)) (fsum (map fabs ?l)))"
    unfolding kinetic_energy_def rd g l bind_def by simp
  also have "\<dots> = Inr (Fin (spec_kinetic_energy xs ?cs))"
    unfolding dot_masked [OF len] fsum_abs_masked [OF len]
    by (simp add: spec_kinetic_energy_def)
  finally show ?thesis .
qed

lemma kinetic_energy_finite_example: "kinetic_energy store_ke st_ke = Inr (Fin (13 / 2))"
  by (simp add: kinetic_energy_def bind_def bcast_def read_t_def mask_mul_def dot_def fsum_def
      store_ke_def st_ke_def)

text \<open>The two readings of the spec's formula agree on real entries.\<close>

lemma cont_part_map: "cont_part (map f xs) cs = map f (cont_part xs cs)"
  by (simp add: cont_part_def zip_map1 filter_map o_def split_def)

lemma disc_part_map: "disc_part (map f xs) cs = map f (disc_part xs cs)"
  by (simp add: disc_part_def zip_map1 filter_map o_def split_def)

lemma spec_kinetic_energy_ext_finite:
  "spec_kinetic_energy_ext (map Fin xs) cs = Fin (spec_kinetic_energy xs cs)"
proof -
  have a: "fsum (map (\<lambda>x. fmul x x) (map Fin ys)) = Fin (\<Sum>x\<leftarrow>ys. x\<^sup>2)" for ys
    by (induction ys) (simp_all add: fsum_def power2_eq_square)
  have b: "fsum (map fabs (map Fin ys)) = Fin (\<Sum>x\<leftarrow>ys. \<bar>x\<bar>)" for ys
    by (induction ys) (simp_all add: fsum_def)
  show ?thesis
    unfolding spec_kinetic_energy_ext_def cont_part_map disc_part_map a b
    by (simp add: spec_kinetic_energy_def)
qed

text \<open>A momentum of size 1 is broadcast over a longer mask.\<close>

lemma kinetic_energy_broadcast:
  "kinetic_energy [[Fin 2]] \<lparr>q = [Fin 0], p = \<lparr>addr = 0, tlen = 1\<rparr>, is_cont = [True, False]\<rparr>
     = Inr (Fin 4)"
  by (simp add: kinetic_energy_def bind_def bcast_def read_t_def mask_mul_def dot_def fsum_def)

section \<open>The store\<close>

lemma read_write:
  "read_t (write_t s h i v) h' =
     (if addr h' = addr h then (read_t s h')[i := v] else read_t s h')"
  by (simp add: read_t_def write_t_def take_update_swap)

lemma read_view: "read_t s (view_to h n) = take n (read_t s h)"
  by (simp add: read_t_def view_to_def min.commute)

lemma length_write: "length (write_t s h i v) = length s"
  by (simp add: write_t_def)

lemma read_live: "i < length (read_t s h) \<Longrightarrow> addr h < length s"
  by (simp add: read_t_def split: if_splits)

lemma alloc_read_new: "alloc s xs = (h, s') \<Longrightarrow> read_t s' h = xs"
  by (auto simp: read_t_def alloc_def)

lemma alloc_read_old:
  "alloc s xs = (h, s') \<Longrightarrow> addr h' < length s \<Longrightarrow> read_t s' h' = read_t s h'"
  by (auto simp: read_t_def alloc_def nth_append)

lemma alloc_length: "alloc s xs = (h, s') \<Longrightarrow> length s' = Suc (length s) \<and> addr h = length s"
  by (auto simp: alloc_def)

section \<open>Coordinate integrator\<close>

lemma mask_pick: "fadd (mask_mul (Fin x) c) (mask_mul (Fin y) (\<not> c)) = Fin (if c then x else y)"
  by (simp add: mask_mul_def)

lemma p_padding_gen:
  "p_padding S N N2 cs g = Inr (pad, g2) \<Longrightarrow> g2 = g @ [Normal (N2 - N), Laplace (N2 - N)]"
  by (auto simp: p_padding_def normal_sample_def laplace_sample_def bind_Inr)

lemma p_padding_values:
  assumes "p_padding S N N2 cs g = Inr (pad, g2)"
    and len: "length (slice cs N N2) = N2 - N"
  shows "pad = map (\<lambda>k. Fin (if cs ! (N + k) then normal_at S g k
                             else laplace_at S (g @ [Normal (N2 - N)]) k)) [0..<N2 - N]"
proof -
  let ?n = "N2 - N"
  let ?sl = "slice cs N N2"
  let ?gs = "map (\<lambda>k. Fin (normal_at S g k)) [0..<?n]"
  let ?ls = "map (\<lambda>k. Fin (laplace_at S (g @ [Normal ?n]) k)) [0..<?n]"
  have pad: "pad = map2 fadd (map2 mask_mul ?gs ?sl) (map2 mask_mul ?ls (map Not ?sl))"
    using assms
    by (simp add: p_padding_def normal_sample_def laplace_sample_def bind_def bcast_same)
  have sl: "\<And>k. k < ?n \<Longrightarrow> ?sl ! k = cs ! (N + k)"
    using len by (simp add: slice_def)
  show ?thesis
    unfolding pad using len sl by (intro nth_equalityI) (simp_all add: mask_pick)
qed

lemma extend_dim_Inr:
  assumes ext: "extend_dim S N N2 res st st0 s g = Inr (st', st0', s', g')"
    and live: "addr (p st) < length s"
  shows "\<exists>pad. p_padding S N N2 (prob_run.is_cont res) g = Inr (pad, g') \<and>
           read_t s' (p st') = read_t s (p st) @ pad \<and>
           read_t s' (p st0') = read_t s (p st0) @ pad \<and>
           q st' = samples res \<and> is_cont st' = prob_run.is_cont res \<and>
           q st0' = q st0 \<and>
           is_cont st0' = is_cont st0 @ slice (prob_run.is_cont res) N N2"
proof -
  from ext obtain pad g2 where pp: "p_padding S N N2 (prob_run.is_cont res) g = Inr (pad, g2)"
    by (auto simp: extend_dim_def Let_def bind_Inr)
  obtain p0 s1 where a0: "alloc s (read_t s (p st0) @ pad) = (p0, s1)"
    by (cases "alloc s (read_t s (p st0) @ pad)")
  obtain p1 s2 where a1: "alloc s1 (read_t s1 (p st) @ pad) = (p1, s2)"
    by (cases "alloc s1 (read_t s1 (p st) @ pad)")
  from ext pp a0 a1 have res:
    "st' = st\<lparr>q := samples res, p := p1, is_cont := prob_run.is_cont res\<rparr>"
    "st0' = st0\<lparr>p := p0, is_cont := is_cont st0 @ slice (prob_run.is_cont res) N N2\<rparr>"
    "s' = s2" "g' = g2"
    by (simp_all add: extend_dim_def Let_def bind_def)
  have r1: "read_t s1 (p st) = read_t s (p st)"
    using alloc_read_old [OF a0 live] .
  have "read_t s2 p1 = read_t s (p st) @ pad"
    using alloc_read_new [OF a1] r1 by simp
  moreover have "addr p0 < length s1"
    using alloc_length [OF a0] by simp
  then have "read_t s2 p0 = read_t s (p st0) @ pad"
    using alloc_read_old [OF a1] alloc_read_new [OF a0] by simp
  ultimately show ?thesis using res pp by auto
qed

lemma coord_integrator_index:
  assumes "coord_integrator S run_prog i eps st st0 res s g = Inr w"
  shows "i < length (q st)" and "i < length (read_t s (p st))"
  using assms by (auto simp: coord_integrator_def split: if_splits)

lemma coord_integrator_reflect:
  assumes "coord_integrator S run_prog i eps st st0 res s g = Inr w"
    and "reflects run_prog i eps st res s g"
  shows "w = (res, st, st0, write_t s (p st) i (fneg (read_t s (p st) ! i)),
              snd (candidate run_prog i eps st s g))"
  using assms by (auto simp: coord_integrator_def Let_def split: if_splits prod.splits)

lemma coord_integrator_accept:
  assumes "coord_integrator S run_prog i eps st st0 res s g = Inr (res', st', st0', s', g')"
    and "\<not> reflects run_prog i eps st res s g"
  shows "res' = fst (candidate run_prog i eps st s g)"
    and "check_lengths s' st' st0'"
    and "len res < len res' \<Longrightarrow>
           extend_dim S (len res) (len res') res' st st0
             (write_t s (p st) i
                (refracted (read_t s (p st) ! i) (delta_U run_prog i eps st res s g)))
             (snd (candidate run_prog i eps st s g)) = Inr (st', st0', s', g')"
    and "\<not> len res < len res' \<Longrightarrow>
           (st', st0') = truncate_dim (len res') res' st st0 \<and>
           s' = write_t s (p st) i
                  (refracted (read_t s (p st) ! i) (delta_U run_prog i eps st res s g)) \<and>
           g' = snd (candidate run_prog i eps st s g)"
  using assms
  by (auto simp: coord_integrator_def Let_def bind_Inr split: if_splits prod.splits)




text \<open>
  C2. The length invariant is preserved by every call of the coordinate integrator that
  returns, on the reflect branch (which changes no length) and on the accept branch (where
  the assertions of lines 146 to 149 check it): if the working state's \<open>q\<close>, \<open>p\<close> and
  \<open>is_cont\<close> have equal length and the reference state's \<open>p\<close> and \<open>is_cont\<close> have
  that length before the call, they do after it.
\<close>

theorem coord_integrator_length_invariant:
  assumes run: "coord_integrator S run_prog i eps st st0 res s g = Inr (res', st', st0', s', g')"
    and inv: "length_invariant s st st0"
  shows "length_invariant s' st' st0'"
proof (cases "reflects run_prog i eps st res s g")
  case True
  from coord_integrator_reflect [OF run True]
  have "st' = st" "st0' = st0" "s' = write_t s (p st) i (fneg (read_t s (p st) ! i))"
    by simp_all
  with inv show ?thesis by (simp add: length_invariant_def read_write)
next
  case False
  from coord_integrator_accept(2) [OF run False]
  show ?thesis by (auto simp: check_lengths_def length_invariant_def)
qed

lemmas run_defs = coord_integrator_def candidate_def reflects_def delta_U_def refracted_def
  const_prog_def grow_prog_def shrink_prog_def res1_def res2_def work1_def ref1_def
  work2_def ref2_def read_t_def write_t_def alloc_def fsub_def len_def truncate_dim_def
  view_to_def check_lengths_def bind_def Let_def extend_dim_def p_padding_def
  normal_sample_def laplace_sample_def bcast_def mask_mul_def slice_def seed0_def



lemma run_reflect:
  "coord_integrator seed0 (const_prog (Fin (- 1))) 0 (Fin 1) work1 ref1 res1
       [[Fin (1 / 2)], [Fin 7]] [] =
     Inr (res1, work1, ref1, [[Fin (- (1 / 2))], [Fin 7]], [])"
  by (simp add: run_defs)

lemma run_grow:
  "coord_integrator seed0 grow_prog 0 (Fin 1) work1 ref1 res1 [[Fin 2], [Fin 7]] [] =
     Inr (fst (grow_prog [Fin 1] []),
          \<lparr>q = [Fin 1, Fin 5], p = \<lparr>addr = 3, tlen = 2\<rparr>, is_cont = [True, False]\<rparr>,
          \<lparr>q = [Fin 0], p = \<lparr>addr = 2, tlen = 2\<rparr>, is_cont = [False, False]\<rparr>,
          [[Fin 2], [Fin 7], [Fin 7, Fin 2], [Fin 2, Fin 2]], [Normal 1, Laplace 1])"
  by (simp add: run_defs)

lemma run_shrink:
  "coord_integrator seed0 shrink_prog 1 (Fin 1) work2 ref2 res2
       [[Fin 2, Fin 3], [Fin 7, Fin 8]] [] =
     Inr (fst (shrink_prog [Fin 0, Fin 1] []),
          \<lparr>q = [Fin 0], p = \<lparr>addr = 0, tlen = 1\<rparr>, is_cont = [False]\<rparr>,
          \<lparr>q = [Fin 0, Fin 0], p = \<lparr>addr = 1, tlen = 1\<rparr>, is_cont = [False]\<rparr>,
          [[Fin 2, Fin 3], [Fin 7, Fin 8]], [])"
  by (simp add: run_defs)

theorem coord_integrator_length_invariant_witness:
  "length_invariant [[Fin 2], [Fin 7]] work1 ref1 \<and>
   length_invariant [[Fin 2], [Fin 7], [Fin 7, Fin 2], [Fin 2, Fin 2]]
     \<lparr>q = [Fin 1, Fin 5], p = \<lparr>addr = 3, tlen = 2\<rparr>, is_cont = [True, False]\<rparr>
     \<lparr>q = [Fin 0], p = \<lparr>addr = 2, tlen = 2\<rparr>, is_cont = [False, False]\<rparr>"
proof -
  have inv: "length_invariant [[Fin 2], [Fin 7]] work1 ref1"
    by (simp add: length_invariant_def read_t_def work1_def ref1_def)
  from coord_integrator_length_invariant [OF run_grow inv] inv show ?thesis by simp
qed

text \<open>
  On the accept branch the invariant holds after the call whatever the lengths were before
  it. The reflect branch has no assertion: it returns the lengths it was given, whether
  they agree or not.
\<close>

lemma coord_integrator_accept_lengths:
  assumes "coord_integrator S run_prog i eps st st0 res s g = Inr (res', st', st0', s', g')"
    and "\<not> reflects run_prog i eps st res s g"
  shows "length_invariant s' st' st0'"
  using coord_integrator_accept(2) [OF assms]
  by (auto simp: check_lengths_def length_invariant_def)

lemma coord_integrator_reflect_keeps_lengths:
  "coord_integrator seed0 (const_prog (Fin (- 1))) 0 (Fin 1) (work1\<lparr>is_cont := [False, False]\<rparr>)
       ref1 res1 [[Fin (1 / 2)], [Fin 7]] [] =
     Inr (res1, work1\<lparr>is_cont := [False, False]\<rparr>, ref1, [[Fin (- (1 / 2))], [Fin 7]], [])"
  by (simp add: run_defs)




text \<open>
  C4 (as amended). Whenever an accepted move grows the dimensionality from \<open>N\<close> to
  \<open>N2 > N\<close>, one momentum value per new index is drawn after the oracle call (the normal
  draw if the new mask marks the index continuous, the Laplace draw otherwise), and the
  same values \<open>pad\<close> are appended to the working and to the reference momentum; the
  entries \<open>N..N2\<close> of the new mask are appended to the reference mask, while the working
  state takes the new result's whole mask and its whole position vector. Whenever the
  dimensionality shrinks to \<open>N2 < N\<close>, both momenta and the reference mask are cut to
  their first \<open>N2\<close> entries, the working state takes the first \<open>N2\<close> entries of the new
  result's position and mask, and all five have length \<open>N2\<close>. (\<open>s1\<close> is the store after
  the write of line 123, \<open>g1\<close> the generator after the oracle call.)
\<close>
theorem coord_integrator_resize:
  fixes S :: seed and s :: store and st st0 :: state and i :: nat
    and run_prog :: "'v run_prog_fn" and eps :: scalar and res res' :: "'v prob_run"
    and g g1 :: gen and s1 :: store and N N2 :: nat and pad :: "scalar list"
  defines "N \<equiv> len res" and "N2 \<equiv> len res'"
    and "s1 \<equiv> write_t s (p st) i
                 (refracted (read_t s (p st) ! i) (delta_U run_prog i eps st res s g))"
    and "g1 \<equiv> snd (candidate run_prog i eps st s g)"
  defines "pad \<equiv> map (\<lambda>k. Fin (if prob_run.is_cont res' ! (N + k) then normal_at S g1 k
                                   else laplace_at S (g1 @ [Normal (N2 - N)]) k)) [0..<N2 - N]"
  assumes run: "coord_integrator S run_prog i eps st st0 res s g = Inr (res', st', st0', s', g')"
    and acc: "\<not> reflects run_prog i eps st res s g"
  shows "(N < N2 \<longrightarrow>
            q st' = samples res' \<and>
            read_t s' (p st') = read_t s1 (p st) @ pad \<and>
            is_cont st' = prob_run.is_cont res' \<and>
            read_t s' (p st0') = read_t s1 (p st0) @ pad \<and>
            is_cont st0' = is_cont st0 @ slice (prob_run.is_cont res') N N2 \<and>
            g' = g1 @ [Normal (N2 - N), Laplace (N2 - N)]) \<and>
         (N2 < N \<longrightarrow>
            q st' = take N2 (samples res') \<and>
            read_t s' (p st') = take N2 (read_t s1 (p st)) \<and>
            is_cont st' = take N2 (prob_run.is_cont res') \<and>
            read_t s' (p st0') = take N2 (read_t s1 (p st0)) \<and>
            is_cont st0' = take N2 (is_cont st0) \<and>
            g' = g1 \<and>
            length (q st') = N2 \<and> length (read_t s' (p st')) = N2 \<and>
            length (is_cont st') = N2 \<and> length (read_t s' (p st0')) = N2 \<and>
            length (is_cont st0') = N2)"
proof (intro conjI impI)
  note accd = coord_integrator_accept [OF run acc, folded s1_def g1_def]
  assume lt: "N < N2"
  then have lt': "len res < len res'" by (simp add: N_def N2_def)
  have live1: "addr (p st) < length s1"
    using read_live [OF coord_integrator_index(2) [OF run]] by (simp add: s1_def length_write)
  from extend_dim_Inr [OF accd(3) [OF lt'] live1]
  obtain pad' where
    pp: "p_padding S (len res) (len res') (prob_run.is_cont res') g1 = Inr (pad', g')"
    and rd: "read_t s' (p st') = read_t s1 (p st) @ pad'"
            "read_t s' (p st0') = read_t s1 (p st0) @ pad'"
    and rest: "q st' = samples res'" "is_cont st' = prob_run.is_cont res'"
              "is_cont st0' = is_cont st0 @ slice (prob_run.is_cont res') (len res) (len res')"
    by blast
  from accd(2) rest have "length (prob_run.is_cont res') = len res'"
    by (simp add: check_lengths_def len_def)
  then have sl: "length (slice (prob_run.is_cont res') (len res) (len res')) = len res' - len res"
    by (simp add: slice_def)
  have "pad' = pad"
    using p_padding_values [OF pp sl] by (simp add: pad_def N_def N2_def)
  with rd rest p_padding_gen [OF pp]
  show "q st' = samples res'" "read_t s' (p st') = read_t s1 (p st) @ pad"
    "is_cont st' = prob_run.is_cont res'" "read_t s' (p st0') = read_t s1 (p st0) @ pad"
    "is_cont st0' = is_cont st0 @ slice (prob_run.is_cont res') N N2"
    "g' = g1 @ [Normal (N2 - N), Laplace (N2 - N)]"
    by (simp_all add: N_def N2_def)
next
  note accd = coord_integrator_accept [OF run acc, folded s1_def g1_def]
  assume lt: "N2 < N"
  then have nlt: "\<not> len res < len res'" by (simp add: N_def N2_def)
  from accd(4) [OF nlt] have tr: "st' = fst (truncate_dim (len res') res' st st0)"
      "st0' = snd (truncate_dim (len res') res' st st0)" "s' = s1" "g' = g1"
    by (auto dest: arg_cong [where f = fst] arg_cong [where f = snd])
  then show a: "q st' = take N2 (samples res')"
    "read_t s' (p st') = take N2 (read_t s1 (p st))"
    "is_cont st' = take N2 (prob_run.is_cont res')"
    "read_t s' (p st0') = take N2 (read_t s1 (p st0))"
    "is_cont st0' = take N2 (is_cont st0)" "g' = g1"
    by (simp_all add: truncate_dim_def read_view N2_def)
  from a(1) show b: "length (q st') = N2" by (simp add: len_def N2_def)
  with accd(2) show "length (read_t s' (p st')) = N2" "length (is_cont st') = N2"
    "length (read_t s' (p st0')) = N2" "length (is_cont st0') = N2"
    by (simp_all add: check_lengths_def)
qed

theorem coord_integrator_resize_witness:
  "\<not> reflects grow_prog 0 (Fin 1) work1 res1 [[Fin 2], [Fin 7]] [] \<and>
   len res1 < len (fst (grow_prog [Fin 1] [])) \<and>
   read_t [[Fin 2], [Fin 7], [Fin 7, Fin 2], [Fin 2, Fin 2]] \<lparr>addr = 3, tlen = 2\<rparr> =
     [Fin 2] @ [Fin (laplace_at seed0 [Normal 1] 0)] \<and>
   read_t [[Fin 2], [Fin 7], [Fin 7, Fin 2], [Fin 2, Fin 2]] \<lparr>addr = 2, tlen = 2\<rparr> =
     [Fin 7] @ [Fin (laplace_at seed0 [Normal 1] 0)] \<and>
   \<not> reflects shrink_prog 1 (Fin 1) work2 res2 [[Fin 2, Fin 3], [Fin 7, Fin 8]] [] \<and>
   len (fst (shrink_prog [Fin 0, Fin 1] [])) < len res2 \<and>
   read_t [[Fin 2, Fin 3], [Fin 7, Fin 8]] \<lparr>addr = 0, tlen = 1\<rparr> = take 1 [Fin 2, Fin 3] \<and>
   read_t [[Fin 2, Fin 3], [Fin 7, Fin 8]] \<lparr>addr = 1, tlen = 1\<rparr> = take 1 [Fin 7, Fin 8]"
proof -
  have g: "\<not> reflects grow_prog 0 (Fin 1) work1 res1 [[Fin 2], [Fin 7]] []"
    by (simp add: run_defs)
  have gl: "len res1 < len (fst (grow_prog [Fin 1] []))"
    by (simp add: run_defs)
  have sh: "\<not> reflects shrink_prog 1 (Fin 1) work2 res2 [[Fin 2, Fin 3], [Fin 7, Fin 8]] []"
    by (simp add: run_defs)
  have sl: "len (fst (shrink_prog [Fin 0, Fin 1] [])) < len res2"
    by (simp add: run_defs)
  from coord_integrator_resize [OF run_grow g] gl
  have a: "read_t [[Fin 2], [Fin 7], [Fin 7, Fin 2], [Fin 2, Fin 2]] \<lparr>addr = 3, tlen = 2\<rparr> =
             [Fin 2] @ [Fin (laplace_at seed0 [Normal 1] 0)] \<and>
           read_t [[Fin 2], [Fin 7], [Fin 7, Fin 2], [Fin 2, Fin 2]] \<lparr>addr = 2, tlen = 2\<rparr> =
             [Fin 7] @ [Fin (laplace_at seed0 [Normal 1] 0)]"
    by (simp add: run_defs)
  from coord_integrator_resize [OF run_shrink sh] sl
  have b: "read_t [[Fin 2, Fin 3], [Fin 7, Fin 8]] \<lparr>addr = 0, tlen = 1\<rparr> = take 1 [Fin 2, Fin 3] \<and>
           read_t [[Fin 2, Fin 3], [Fin 7, Fin 8]] \<lparr>addr = 1, tlen = 1\<rparr> = take 1 [Fin 7, Fin 8]"
    by (simp add: run_defs)
  from g gl sh sl a b show ?thesis by simp
qed

text \<open>
  The claim as stated fails for the working mask: the move below grows one discontinuous
  coordinate to two, and the new mask marks the old coordinate continuous. The reference
  mask becomes the old one with the new entry appended; the working mask does not.
\<close>

theorem coord_integrator_working_mask_counterexample:
  "coord_integrator seed0 grow_prog 0 (Fin 1) work1 ref1 res1 [[Fin 2], [Fin 7]] [] =
     Inr (fst (grow_prog [Fin 1] []),
          \<lparr>q = [Fin 1, Fin 5], p = \<lparr>addr = 3, tlen = 2\<rparr>, is_cont = [True, False]\<rparr>,
          \<lparr>q = [Fin 0], p = \<lparr>addr = 2, tlen = 2\<rparr>, is_cont = [False, False]\<rparr>,
          [[Fin 2], [Fin 7], [Fin 7, Fin 2], [Fin 2, Fin 2]], [Normal 1, Laplace 1]) \<and>
   \<not> reflects grow_prog 0 (Fin 1) work1 res1 [[Fin 2], [Fin 7]] [] \<and>
   len res1 = 1 \<and> len (fst (grow_prog [Fin 1] [])) = 2 \<and>
   slice (prob_run.is_cont (fst (grow_prog [Fin 1] []))) 1 2 = [False] \<and>
   is_cont work1 @ [False] = [False, False] \<and>
   [True, False] \<noteq> is_cont work1 @ [False] \<and>
   is_cont ref1 @ [False] = [False, False]"
  by (simp add: run_defs)

text \<open>
  C10. On the reflection branch the only mutation is the write of the negated \<open>p[i]\<close>
  into the tensor of the working state's momentum: the working state's \<open>q\<close> and
  \<open>is_cont\<close> and every other entry of its \<open>p\<close> are unchanged, and so are the reference
  state's \<open>q\<close>, \<open>p\<close> and \<open>is_cont\<close>, the two momentum fields being different
  tensors.
\<close>
theorem coord_integrator_reflect_frame:
  assumes run: "coord_integrator S run_prog i eps st st0 res s g = Inr (res', st', st0', s', g')"
    and refl: "reflects run_prog i eps st res s g"
    and distinct: "addr (p st0) \<noteq> addr (p st)"
  shows "s' = write_t s (p st) i (fneg (read_t s (p st) ! i)) \<and>
         q st' = q st \<and> is_cont st' = is_cont st \<and> p st' = p st \<and>
         read_t s' (p st') = (read_t s (p st))[i := fneg (read_t s (p st) ! i)] \<and>
         q st0' = q st0 \<and> is_cont st0' = is_cont st0 \<and> p st0' = p st0 \<and>
         read_t s' (p st0') = read_t s (p st0)"
  using coord_integrator_reflect [OF run refl] distinct by (simp add: read_write)

theorem coord_integrator_reflect_frame_witness:
  "reflects (const_prog (Fin (- 1))) 0 (Fin 1) work1 res1 [[Fin (1 / 2)], [Fin 7]] [] \<and>
   addr (p ref1) \<noteq> addr (p work1) \<and>
   read_t [[Fin (- (1 / 2))], [Fin 7]] (p work1) = [Fin (- (1 / 2))] \<and>
   read_t [[Fin (- (1 / 2))], [Fin 7]] (p ref1) = read_t [[Fin (1 / 2)], [Fin 7]] (p ref1)"
proof -
  have refl: "reflects (const_prog (Fin (- 1))) 0 (Fin 1) work1 res1 [[Fin (1 / 2)], [Fin 7]] []"
    by (simp add: run_defs)
  have distinct: "addr (p ref1) \<noteq> addr (p work1)"
    by (simp add: work1_def ref1_def)
  from coord_integrator_reflect_frame [OF run_reflect refl distinct] refl distinct
  show ?thesis by (simp add: read_t_def write_t_def work1_def ref1_def)
qed

text \<open>
  When both states hold the same momentum tensor, as \<^verbatim>\<open>np_dhmc\<close> builds them, the write
  shows in the reference state too.
\<close>

lemma coord_integrator_reflect_shared:
  "coord_integrator seed0 (const_prog (Fin (- 1))) 0 (Fin 1) work1 (ref1\<lparr>p := p work1\<rparr>) res1
       [[Fin (1 / 2)], [Fin 7]] [] =
     Inr (res1, work1, ref1\<lparr>p := p work1\<rparr>, [[Fin (- (1 / 2))], [Fin 7]], []) \<and>
   read_t [[Fin (1 / 2)], [Fin 7]] (p (ref1\<lparr>p := p work1\<rparr>)) = [Fin (1 / 2)] \<and>
   read_t [[Fin (- (1 / 2))], [Fin 7]] (p (ref1\<lparr>p := p work1\<rparr>)) = [Fin (- (1 / 2))]"
  by (simp add: run_defs)

text \<open>
  The leapfrog step never calls the coordinate integrator on a shared tensor: its first
  half binds the working momentum to a new tensor, and the coordinate integrator keeps the
  two momenta apart.
\<close>

lemma first_half_separate:
  assumes "first_half run_prog eps st s g = Inr (st2, s1, g1)"
    and "addr (p st0) < length s"
  shows "separate s1 st2 st0"
  using assms
  by (auto simp: first_half_def Let_def bind_Inr alloc_def separate_def split: prod.splits)

lemma coord_integrator_separate:
  assumes run: "coord_integrator S run_prog i eps st st0 res s g = Inr (res', st', st0', s', g')"
    and sep: "separate s st st0"
  shows "separate s' st' st0'"
proof (cases "reflects run_prog i eps st res s g")
  case True
  from coord_integrator_reflect [OF run True] sep show ?thesis
    by (simp add: separate_def length_write)
next
  case False
  note acc = coord_integrator_accept [OF run False]
  show ?thesis
  proof (cases "len res < len res'")
    case True
    from acc(3) [OF True] show ?thesis
      by (auto simp: extend_dim_def Let_def bind_Inr alloc_def separate_def length_write
          split: prod.splits)
  next
    case False
    from acc(4) [OF False] sep show ?thesis
      by (auto simp: truncate_dim_def view_to_def separate_def length_write)
  qed
qed

lemma sweep_separate:
  "sweep S run_prog eps js (res, st, st0, s, g) = Inr (res', st', st0', s', g') \<Longrightarrow>
   separate s st st0 \<Longrightarrow> separate s' st' st0'"
proof (induction js arbitrary: res st st0 s g)
  case Nil
  then show ?case by simp
next
  case (Cons j js)
  show ?case
  proof (cases "length (q st) \<le> j")
    case True
    with Cons.prems(1) have "sweep S run_prog eps js (res, st, st0, s, g) = Inr (res', st', st0', s', g')"
      by simp
    from Cons.IH [OF this Cons.prems(2)] show ?thesis .
  next
    case False
    with Cons.prems(1) obtain w where
      c: "coord_integrator S run_prog j eps st st0 res s g = Inr w"
      and r: "sweep S run_prog eps js w = Inr (res', st', st0', s', g')"
      by (auto simp: bind_Inr)
    obtain r1 a1 b1 s1 g1 where w: "w = (r1, a1, b1, s1, g1)" by (cases w) auto
    from coord_integrator_separate [OF c [unfolded w] Cons.prems(2)]
    have "separate s1 a1 b1" .
    from Cons.IH [OF r [unfolded w] this] show ?thesis .
  qed
qed

section \<open>The driver\<close>

lemma fsub_fsub: "fsub (fsub a u) k = fsub a (fadd u k)"
  by (cases a; cases u; cases k) (simp_all add: fsub_def)

lemma metropolis_Inr:
  assumes "metropolis S d prev_res (res, st, st0, s, g) = Inr d'"
  shows "\<exists>K_0 K. kinetic_energy s st0 = Inr K_0 \<and> kinetic_energy s st = Inr K \<and>
           d' = (if accepts S prev_res res K_0 K g then commit d res st (g @ [Rand])
                 else rollback d prev_res (if fneg (log_weight res) \<noteq> PInf then g @ [Rand] else g))"
proof -
  from assms obtain K_0 K where k: "kinetic_energy s st0 = Inr K_0" "kinetic_energy s st = Inr K"
    by (auto simp: metropolis_def bind_Inr)
  with assms have "d' = (if accepts S prev_res res K_0 K g then commit d res st (g @ [Rand])
                 else rollback d prev_res (if fneg (log_weight res) \<noteq> PInf then g @ [Rand] else g))"
    by (simp add: metropolis_def bind_def accepts_def torch_rand_def split: if_splits)
  with k show ?thesis by blast
qed

lemma commit_fields:
  "accept_count (commit d res st g) = accept_count d + 1"
  "result (commit d res st g) = res"
  "driver.q (commit d res st g) = q st"
  "driver.is_cont (commit d res st g) = is_cont st"
  "final_samples (commit d res st g) = final_samples d @ [val res]"
  "rng (commit d res st g) = g"
  by (simp_all add: commit_def)

lemma rollback_fields:
  "accept_count (rollback d prev_res g) = accept_count d"
  "result (rollback d prev_res g) = prev_res"
  "driver.q (rollback d prev_res g) = driver.q d"
  "driver.is_cont (rollback d prev_res g) = driver.is_cont d"
  "final_samples (rollback d prev_res g) = final_samples d @ [val prev_res]"
  "rng (rollback d prev_res g) = g"
  by (simp_all add: rollback_def)

lemma np_dhmc_iter_Inr:
  assumes "np_dhmc_iter S run_prog leapfrog_steps eps d = Inr d'"
  shows "\<exists>res st st0 s g. trajectory S run_prog leapfrog_steps eps d = Inr (res, st, st0, s, g) \<and>
           metropolis S d (result d) (res, st, st0, s, g) = Inr d'"
  using assms by (auto simp: np_dhmc_iter_def Let_def bind_Inr)

lemmas drv_defs = trajectory_def np_dhmc_iter_def metropolis_def proposal_draws_def
  integrator_step_def first_half_def second_half_def disc_indices_permuted_def
  kinetic_energy_def accept_prob_def commit_def rollback_def
  init_driver_def torch_rand_def normal_sample_def laplace_sample_def randperm_def
  index_by_def bcast_def mask_mul_def bind_def Let_def alloc_def read_t_def empty_store_def
  fsub_def dot_def fsum_def seed0_def pole_prog_def wall_prog_def spike_prog_def d_start_def
  res_at_1_def d_pole1_def d_pole2_def d_pole3_def d_wall1_def work_at_1_def ref_at_0_def

text \<open>
  Runs on concrete inputs, with step size 1 and one leapfrog step. The first iteration
  moves the coordinate from 0 to 1, where the log-weight is plus infinity with
  \<open>pole_prog\<close> and minus infinity with \<open>wall_prog\<close>; the next iterations with
  \<open>pole_prog\<close> start from a non-finite log-weight.
\<close>

lemma init_pole: "init_driver pole_prog [] = d_start"
  by (simp add: drv_defs)

lemma traj_pole:
  "trajectory seed0 pole_prog 1 (Fin 1) d_start =
     Inr (res_at_1 PInf, work_at_1, ref_at_0, [[Fin 1], [Fin 1], [Fin 1]],
          [Rand, Normal 1, Laplace 1, Randperm 0])"
  by (simp add: drv_defs)

lemma traj_wall:
  "trajectory seed0 wall_prog 1 (Fin 1) d_start =
     Inr (res_at_1 NInf, work_at_1, ref_at_0, [[Fin 1], [Fin 1], [Fin 1]],
          [Rand, Normal 1, Laplace 1, Randperm 0])"
  by (simp add: drv_defs)

lemma iter_pole: "np_dhmc_iter seed0 pole_prog 1 (Fin 1) d_start = Inr d_pole1"
  by (simp add: drv_defs)

lemma iter_pole2: "np_dhmc_iter seed0 pole_prog 1 (Fin 1) d_pole1 = Inr d_pole2"
  by (simp add: drv_defs)

lemma iter_pole3: "np_dhmc_iter seed0 pole_prog 1 (Fin 1) d_pole2 = Inr d_pole3"
  by (simp add: drv_defs)

lemma iter_wall: "np_dhmc_iter seed0 wall_prog 1 (Fin 1) d_start = Inr d_wall1"
  by (simp add: drv_defs)

lemma loop_pole: "np_dhmc_loop seed0 pole_prog 1 (Fin 1) 3 d_start = Inr d_pole3"
  by (simp add: eval_nat_numeral iter_pole iter_pole2 iter_pole3 bind_def)

lemma run_pole: "np_dhmc seed0 pole_prog 2 1 (Fin 1) (Some 1) [] = Inr [Fin 1, Fin 1]"
proof -
  have "nat (2 + 1) = (3 :: nat)" by simp
  then show ?thesis
    by (simp add: np_dhmc_def init_pole loop_pole bind_def Let_def drop_from_def d_pole3_def)
qed

text \<open>
  C6. In every driver iteration that rejects its proposal (the acceptance counter is not
  incremented), the driver's position vector, continuity mask and current result bundle
  after the iteration are their values from before it, whatever the trajectory did to the
  working and reference states.
\<close>

theorem np_dhmc_iter_reject:
  assumes run: "np_dhmc_iter S run_prog leapfrog_steps eps d = Inr d'"
    and rej: "accept_count d' = accept_count d"
  shows "driver.q d' = driver.q d \<and> driver.is_cont d' = driver.is_cont d \<and>
         result d' = result d"
proof -
  from np_dhmc_iter_Inr [OF run] obtain res st st0 s g
    where m: "metropolis S d (result d) (res, st, st0, s, g) = Inr d'" by blast
  from metropolis_Inr [OF m] obtain K_0 K where
    d': "d' = (if accepts S (result d) res K_0 K g then commit d res st (g @ [Rand])
               else rollback d (result d) (if fneg (log_weight res) \<noteq> PInf then g @ [Rand] else g))"
    by blast
  show ?thesis
  proof (cases "accepts S (result d) res K_0 K g")
    case True
    with d' rej show ?thesis by (simp add: commit_fields)
  next
    case False
    with d' show ?thesis by (simp add: rollback_fields)
  qed
qed

theorem np_dhmc_iter_reject_witness:
  "np_dhmc_iter seed0 wall_prog 1 (Fin 1) d_start = Inr d_wall1 \<and>
   accept_count d_wall1 = accept_count d_start \<and>
   driver.q d_wall1 = [Fin 0] \<and> driver.is_cont d_wall1 = [True] \<and>
   result d_wall1 = result d_start"
proof -
  have rej: "accept_count d_wall1 = accept_count d_start"
    by (simp add: d_wall1_def)
  from np_dhmc_iter_reject [OF iter_wall rej] iter_wall rej show ?thesis
    by (simp add: d_start_def)
qed

text \<open>
  The test of line 227 as the code makes it: the acceptance counter is incremented if and
  only if the final potential energy is not plus infinity and the uniform draw is below
  \<open>exp (start total energy - end total energy)\<close>; a final potential of plus infinity or
  NaN is never accepted, one of minus infinity is not excluded.
\<close>

lemma np_dhmc_iter_accept_test:
  assumes traj: "trajectory S run_prog leapfrog_steps eps d = Inr (res, st, st0, s, g)"
    and run: "np_dhmc_iter S run_prog leapfrog_steps eps d = Inr d'"
  shows "\<exists>K_0 K. kinetic_energy s st0 = Inr K_0 \<and> kinetic_energy s st = Inr K \<and>
           (accept_count d' = accept_count d + 1 \<longleftrightarrow>
              fneg (log_weight res) \<noteq> PInf \<and>
              flt (Fin (rand_at S g))
                (fexp (fsub (fadd (fneg (log_weight (result d))) K_0)
                            (fadd (fneg (log_weight res)) K)))) \<and>
           (accept_count d' \<noteq> accept_count d + 1 \<longrightarrow> accept_count d' = accept_count d) \<and>
           (fneg (log_weight res) = PInf \<or> fneg (log_weight res) = NaN \<longrightarrow>
              accept_count d' = accept_count d)"
proof -
  from run traj have m: "metropolis S d (result d) (res, st, st0, s, g) = Inr d'"
    by (simp add: np_dhmc_iter_def Let_def bind_def)
  from metropolis_Inr [OF m] obtain K_0 K where
    k: "kinetic_energy s st0 = Inr K_0" "kinetic_energy s st = Inr K" and
    d': "d' = (if accepts S (result d) res K_0 K g then commit d res st (g @ [Rand])
               else rollback d (result d) (if fneg (log_weight res) \<noteq> PInf then g @ [Rand] else g))"
    by blast
  have ap: "accept_prob (result d) res K_0 K =
      fexp (fsub (fadd (fneg (log_weight (result d))) K_0) (fadd (fneg (log_weight res)) K))"
    by (simp add: accept_prob_def Let_def fsub_fsub)
  have nan: "fneg (log_weight res) = NaN \<Longrightarrow> accept_prob (result d) res K_0 K = NaN"
    unfolding ap by (cases "fadd (fneg (log_weight (result d))) K_0") (simp_all add: fsub_def)
  have "accept_count d' = accept_count d + 1 \<longleftrightarrow> accepts S (result d) res K_0 K g"
    using d' by (simp add: commit_fields rollback_fields)
  moreover have "accept_count d' \<noteq> accept_count d + 1 \<longrightarrow> accept_count d' = accept_count d"
    using d' by (simp add: commit_fields rollback_fields)
  moreover have "fneg (log_weight res) = PInf \<or> fneg (log_weight res) = NaN \<longrightarrow>
      \<not> accepts S (result d) res K_0 K g"
    using nan by (auto simp: accepts_def)
  ultimately show ?thesis using k ap by (auto simp: accepts_def)
qed

text \<open>
  C3. The claim has a proposal accepted only if its final potential energy is finite.
  The code diverges from it: line 227 tests \<^verbatim>\<open>U.item() != math.inf\<close> where lines 120 and
  219 test \<^verbatim>\<open>math.isfinite\<close>. With an oracle whose log-weight is 0 at the position 0 and
  plus infinity elsewhere, step size 1 and one leapfrog step, the first iteration ends at
  the position 1 with the final potential minus infinity, the acceptance probability is
  \<open>exp (+\<infinity>)\<close>, the draw 1/2 is below it, and the proposal is accepted. The next
  iteration starts from that non-finite log-weight, runs no leapfrog step, computes the
  acceptance probability NaN and rejects: the chain stays at the accepted position.
\<close>

theorem np_dhmc_iter_accepts_infinite_potential:
  "trajectory seed0 pole_prog 1 (Fin 1) d_start =
     Inr (res_at_1 PInf, work_at_1, ref_at_0, [[Fin 1], [Fin 1], [Fin 1]],
          [Rand, Normal 1, Laplace 1, Randperm 0]) \<and>
   fneg (log_weight (res_at_1 PInf)) = NInf \<and>
   \<not> isfinite (fneg (log_weight (res_at_1 PInf))) \<and>
   np_dhmc_iter seed0 pole_prog 1 (Fin 1) d_start = Inr d_pole1 \<and>
   accept_count d_pole1 = accept_count d_start + 1 \<and>
   driver.q d_pole1 = [Fin 1] \<and> result d_pole1 = res_at_1 PInf \<and>
   final_samples d_pole1 = [Fin 1] \<and>
   np_dhmc_iter seed0 pole_prog 1 (Fin 1) d_pole1 = Inr d_pole2 \<and>
   accept_count d_pole2 = accept_count d_pole1 \<and>
   driver.q d_pole2 = [Fin 1] \<and> result d_pole2 = res_at_1 PInf \<and>
   final_samples d_pole2 = [Fin 1, Fin 1]"
  using traj_pole iter_pole iter_pole2
  by (simp add: res_at_1_def d_pole1_def d_pole2_def d_start_def)

theorem np_dhmc_iter_accepts_infinite_potential_witness:
  "\<exists>d'. np_dhmc_iter seed0 pole_prog 1 (Fin 1) d_start = Inr d' \<and>
        accept_count d' = 1 \<and> log_weight (result d') = PInf"
proof -
  from np_dhmc_iter_accepts_infinite_potential
  have "np_dhmc_iter seed0 pole_prog 1 (Fin 1) d_start = Inr d_pole1" by blast
  moreover have "accept_count d_pole1 = 1 \<and> log_weight (result d_pole1) = PInf"
    by (simp add: d_pole1_def res_at_1_def)
  ultimately show ?thesis by blast
qed

lemma leapfrog_loop_stop:
  "\<not> isfinite (log_weight res) \<Longrightarrow>
   leapfrog_loop S run_prog dt n (res, st, st0, s, g) = Inr (res, st, st0, s, g)"
  by (cases n) simp_all

lemma leapfrog_loop_more:
  assumes "leapfrog_loop S run_prog dt k w = Inr (res, st, st0, s, g)"
    and "\<not> isfinite (log_weight res)"
  shows "leapfrog_loop S run_prog dt (k + m) w = Inr (res, st, st0, s, g)"
  using assms
proof (induction k arbitrary: w)
  case 0
  then show ?case by (simp add: leapfrog_loop_stop)
next
  case (Suc k)
  obtain r1 a1 b1 s1 g1 where w: "w = (r1, a1, b1, s1, g1)" by (cases w) auto
  show ?case
  proof (cases "isfinite (log_weight r1)")
    case False
    with Suc.prems w show ?thesis by (simp add: leapfrog_loop_stop)
  next
    case True
    with Suc.prems w obtain w' where
      step: "integrator_step S run_prog dt a1 b1 s1 g1 = Inr w'"
      and rest: "leapfrog_loop S run_prog dt k w' = Inr (res, st, st0, s, g)"
      by (auto simp: bind_Inr)
    from Suc.IH [OF rest Suc.prems(2)] step True w show ?thesis
      by (simp add: bind_def)
  qed
qed

lemma metropolis_total:
  assumes "kinetic_energy s st0 = Inr K_0" and "kinetic_energy s st = Inr K"
  shows "\<exists>d'. metropolis S d prev_res (res, st, st0, s, g) = Inr d'"
  using assms by (simp add: metropolis_def bind_def torch_rand_def)

text \<open>
  C8. In every driver iteration, once the current result bundle's log-weight is
  non-finite no further leapfrog step is executed: a trajectory that ends with a
  non-finite log-weight ends in the same result bundle, states, store and generator
  however many more leapfrog steps are asked for. The iteration then runs the acceptance
  test on that partial result: it computes the two kinetic energies and commits the
  partial result's position, mask, bundle and value when the test of line 227 accepts it,
  and rolls back to the pre-trajectory bundle otherwise. The only errors the iteration
  can return at that point are those of the kinetic energy itself; the non-finite
  log-weight raises none.
\<close>

theorem np_dhmc_iter_barrier:
  assumes traj: "trajectory S run_prog leapfrog_steps eps d = Inr (res, st, st0, s, g)"
    and barrier: "\<not> isfinite (log_weight res)"
    and more: "leapfrog_steps \<le> more_steps"
  shows "trajectory S run_prog more_steps eps d = Inr (res, st, st0, s, g) \<and>
         np_dhmc_iter S run_prog more_steps eps d =
           bind (kinetic_energy s st0) (\<lambda>K_0. bind (kinetic_energy s st) (\<lambda>K.
             Inr (if accepts S (result d) res K_0 K g then commit d res st (g @ [Rand])
                  else rollback d (result d)
                         (if fneg (log_weight res) \<noteq> PInf then g @ [Rand] else g))))"
proof -
  from more obtain m where m: "nat more_steps = nat leapfrog_steps + m"
    by (metis nat_mono le_Suc_ex)
  from traj obtain dt pv g0 where
    pd: "proposal_draws S eps (driver.q d) (driver.is_cont d) (rng d) = Inr (dt, pv, g0)"
    by (auto simp: trajectory_def bind_Inr)
  obtain h s0 where al: "alloc empty_store pv = (h, s0)" by (cases "alloc empty_store pv")
  let ?w = "(result d, \<lparr>q = driver.q d, p = h, is_cont = driver.is_cont d\<rparr>,
             \<lparr>q = driver.q d, p = h, is_cont = driver.is_cont d\<rparr>, s0, g0)"
  from traj pd al have "leapfrog_loop S run_prog dt (nat leapfrog_steps) ?w = Inr (res, st, st0, s, g)"
    by (simp add: trajectory_def bind_def Let_def)
  from leapfrog_loop_more [OF this barrier, of m] m
  have "leapfrog_loop S run_prog dt (nat more_steps) ?w = Inr (res, st, st0, s, g)" by simp
  with pd al have t: "trajectory S run_prog more_steps eps d = Inr (res, st, st0, s, g)"
    by (simp add: trajectory_def bind_def Let_def)
  then have i: "np_dhmc_iter S run_prog more_steps eps d = metropolis S d (result d) (res, st, st0, s, g)"
    by (simp add: np_dhmc_iter_def Let_def bind_def)
  have "metropolis S d (result d) (res, st, st0, s, g) =
           bind (kinetic_energy s st0) (\<lambda>K_0. bind (kinetic_energy s st) (\<lambda>K.
             Inr (if accepts S (result d) res K_0 K g then commit d res st (g @ [Rand])
                  else rollback d (result d)
                         (if fneg (log_weight res) \<noteq> PInf then g @ [Rand] else g))))"
    by (cases "kinetic_energy s st0"; cases "kinetic_energy s st")
       (simp_all add: metropolis_def bind_def accepts_def torch_rand_def)
  with t i show ?thesis by simp
qed

theorem np_dhmc_iter_barrier_witness:
  "trajectory seed0 pole_prog 1 (Fin 1) d_start =
     Inr (res_at_1 PInf, work_at_1, ref_at_0, [[Fin 1], [Fin 1], [Fin 1]],
          [Rand, Normal 1, Laplace 1, Randperm 0]) \<and>
   \<not> isfinite (log_weight (res_at_1 PInf)) \<and> (1 :: int) \<le> 5 \<and>
   trajectory seed0 pole_prog 5 (Fin 1) d_start =
     Inr (res_at_1 PInf, work_at_1, ref_at_0, [[Fin 1], [Fin 1], [Fin 1]],
          [Rand, Normal 1, Laplace 1, Randperm 0]) \<and>
   np_dhmc_iter seed0 pole_prog 5 (Fin 1) d_start = Inr d_pole1"
proof -
  have b: "\<not> isfinite (log_weight (res_at_1 PInf))"
    by (simp add: res_at_1_def)
  have m: "(1 :: int) \<le> 5" by simp
  have k: "kinetic_energy [[Fin 1], [Fin 1], [Fin 1]] ref_at_0 = Inr (Fin (1 / 2))"
    "kinetic_energy [[Fin 1], [Fin 1], [Fin 1]] work_at_1 = Inr (Fin (1 / 2))"
    by (simp_all add: drv_defs)
  have a: "accepts seed0 (result d_start) (res_at_1 PInf) (Fin (1 / 2)) (Fin (1 / 2))
             [Rand, Normal 1, Laplace 1, Randperm 0]"
    by (simp add: accepts_def accept_prob_def res_at_1_def d_start_def seed0_def fsub_def Let_def)
  have c: "commit d_start (res_at_1 PInf) work_at_1 ([Rand, Normal 1, Laplace 1, Randperm 0] @ [Rand]) = d_pole1"
    by (simp add: commit_def d_start_def d_pole1_def work_at_1_def res_at_1_def)
  note same = np_dhmc_iter_barrier [OF traj_pole b m]
  from same have "np_dhmc_iter seed0 pole_prog 5 (Fin 1) d_start = Inr d_pole1"
    by (simp only: k bind_def sum.case a if_True c)
  with same traj_pole b m show ?thesis by blast
qed









































section \<open>Kinetic energy of an infinite momentum\<close>

text \<open>
  One iteration on a concrete input, with step size 1 and one leapfrog step. The first
  half step moves the continuous coordinate to 1/2, where the log-weight is minus
  infinity; the coordinate integrator then moves the discontinuous coordinate to 1, where
  the log-weight is 0 again, so the change of potential is minus infinity and line 123
  makes the momentum of that coordinate plus infinity.
\<close>

lemma init_hole: "init_driver hole_prog [] = d_hole"
  by (simp add: drv_defs hole_prog_def gap_prog_def d_hole_def)

lemma traj_hole:
  "trajectory seed0 hole_prog 1 (Fin 1) d_hole =
     Inr (fst (hole_prog [Fin 1, NaN] []), work_hole, ref_hole, store_hole,
          [Rand, Normal 2, Laplace 2, Randperm 1])"
  by (simp add: drv_defs run_defs hole_prog_def gap_prog_def d_hole_def work_hole_def ref_hole_def
        store_hole_def eval_nat_numeral inf_times_def)

text \<open>
  The same step with \<open>nan_prog\<close>: the state in which the coordinate integrator is
  called, and the end of the trajectory.
\<close>

lemma first_half_nan:
  "first_half nan_prog (Fin 1) \<lparr>q = [Fin 0, Fin 0], p = \<lparr>addr = 0, tlen = 2\<rparr>, is_cont = [True, False]\<rparr>
       [[Fin 1, Fin 2]] [Rand, Normal 2, Laplace 2] =
     Inr (work_gap, store_gap, [Rand, Normal 2, Laplace 2])"
  by (simp add: first_half_def nan_prog_def gap_prog_def work_gap_def store_gap_def bind_def
        bcast_def mask_mul_def alloc_def read_t_def fsub_def Let_def)

lemma traj_nan:
  "trajectory seed0 nan_prog 1 (Fin 1) d_hole =
     Inr (fst (nan_prog [Fin 1, NaN] []), work_hole, ref_hole,
          [[Fin 1, Fin 2], [Fin 1, NaN], [Fin 1, NaN]],
          [Rand, Normal 2, Laplace 2, Randperm 1])"
  by (simp add: drv_defs run_defs nan_prog_def gap_prog_def d_hole_def work_hole_def ref_hole_def
        eval_nat_numeral inf_times_def)

text \<open>
  C7. The claim has \<open>kinetic_energy\<close> return, for every state, the sum of the squares of
  the momentum entries at the continuous indices, divided by two, plus the sum of the
  absolute values of the momentum entries at the discontinuous indices. The code diverges
  from it on an infinite momentum entry: lines 42 and 43 select the entries by
  multiplication with the mask, and infinity times 0 is NaN. The working state at the end
  of the trajectory above has the momentum \<open>(1, +\<infinity>)\<close> with the second coordinate
  discontinuous: line 224 returns NaN, where the formula gives plus infinity.
\<close>

theorem kinetic_energy_infinite_momentum:
  "trajectory seed0 hole_prog 1 (Fin 1) d_hole =
     Inr (fst (hole_prog [Fin 1, NaN] []), work_hole, ref_hole, store_hole,
          [Rand, Normal 2, Laplace 2, Randperm 1]) \<and>
   read_t store_hole (p work_hole) = [Fin 1, PInf] \<and>
   is_cont work_hole = [True, False] \<and>
   kinetic_energy store_hole work_hole = Inr NaN \<and>
   spec_kinetic_energy_ext [Fin 1, PInf] [True, False] = PInf"
proof -
  have "read_t store_hole (p work_hole) = [Fin 1, PInf]"
    by (simp add: read_t_def store_hole_def work_hole_def)
  moreover have "is_cont work_hole = [True, False]"
    by (simp add: work_hole_def)
  moreover have "kinetic_energy store_hole work_hole = Inr NaN"
    by (simp add: kinetic_energy_def bind_def bcast_def read_t_def mask_mul_def dot_def
          fsum_def inf_times_def store_hole_def work_hole_def)
  moreover have "spec_kinetic_energy_ext [Fin 1, PInf] [True, False] = PInf"
    by (simp add: spec_kinetic_energy_ext_def cont_part_def disc_part_def fsum_def)
  ultimately show ?thesis using traj_hole by simp
qed

theorem kinetic_energy_infinite_momentum_witness:
  "\<exists>K. kinetic_energy store_hole work_hole = Inr K \<and>
        K \<noteq> spec_kinetic_energy_ext (read_t store_hole (p work_hole)) (is_cont work_hole)"
proof -
  from kinetic_energy_infinite_momentum
  have "kinetic_energy store_hole work_hole = Inr NaN"
    and "spec_kinetic_energy_ext (read_t store_hole (p work_hole)) (is_cont work_hole) = PInf"
    by simp_all
  then show ?thesis by simp
qed

end
